theory Spec2Isabelle
  imports Main
begin

section \<open>JavaScript values\<close>

text \<open>
  The runner works on values produced by the YAML and JSON parsers. They are modelled by
  one datatype. A mapping keeps its entries in insertion order, as a JavaScript object
  does; its keys are pairwise distinct (\<open>wf_val\<close>). Numbers are the integers:
  fractions, infinities and NaN are outside the embedding, except that the coercion
  \<open>Number(...)\<close> may yield NaN (\<open>None\<close>). Strings are byte strings.
\<close>

datatype jsval =
    JUndefined
  | JNull
  | JBool bool
  | JNum int
  | JStr string
  | JArr "jsval list"
  | JObj "(string \<times> jsval) list"

datatype error =
    Error string
  | TypeError string
  | SyntaxError string

fun message :: "error \<Rightarrow> string" where
  "message (Error m) = m"
| "message (TypeError m) = m"
| "message (SyntaxError m) = m"

fun truthy :: "jsval \<Rightarrow> bool" where
  "truthy JUndefined = False"
| "truthy JNull = False"
| "truthy (JBool b) = b"
| "truthy (JNum n) = (n \<noteq> 0)"
| "truthy (JStr s) = (s \<noteq> [])"
| "truthy (JArr xs) = True"
| "truthy (JObj kvs) = True"

fun typeof :: "jsval \<Rightarrow> string" where
  "typeof JUndefined = ''undefined''"
| "typeof JNull = ''object''"
| "typeof (JBool b) = ''boolean''"
| "typeof (JNum n) = ''number''"
| "typeof (JStr s) = ''string''"
| "typeof (JArr xs) = ''object''"
| "typeof (JObj kvs) = ''object''"

fun isArray :: "jsval \<Rightarrow> bool" where
  "isArray (JArr xs) = True"
| "isArray v = False"

fun nullish :: "jsval \<Rightarrow> bool" where
  "nullish JUndefined = True"
| "nullish JNull = True"
| "nullish v = False"

text \<open>\<open>lookup kvs k\<close> is \<open>obj[k]\<close> on a mapping: the value stored under the key, or
  \<open>undefined\<close>.\<close>

fun lookup :: "(string \<times> jsval) list \<Rightarrow> string \<Rightarrow> jsval" where
  "lookup [] k = JUndefined"
| "lookup ((k', v) # kvs) k = (if k' = k then v else lookup kvs k)"

text \<open>\<open>get_prop v k\<close> is the property read \<open>v.k\<close> for the data keys the runner reads, on a
  value that is neither \<open>null\<close> nor \<open>undefined\<close> (those raise a TypeError, written out at
  each read that can meet them).\<close>

fun get_prop :: "jsval \<Rightarrow> string \<Rightarrow> jsval" where
  "get_prop (JObj kvs) k = lookup kvs k"
| "get_prop v k = JUndefined"

text \<open>\<open>or_else a b\<close> is \<open>a || b\<close>.\<close>

definition or_else :: "jsval \<Rightarrow> jsval \<Rightarrow> jsval" where
  "or_else a b = (if truthy a then a else b)"

text \<open>Strict equality \<open>===\<close>. Two arrays or two mappings are equal only when they are the
  same reference; the values compared in the runner come from separate parses, so the
  model answers \<open>False\<close> for them.\<close>

fun strict_eq :: "jsval \<Rightarrow> jsval \<Rightarrow> bool" where
  "strict_eq JUndefined JUndefined = True"
| "strict_eq JNull JNull = True"
| "strict_eq (JBool a) (JBool b) = (a = b)"
| "strict_eq (JNum a) (JNum b) = (a = b)"
| "strict_eq (JStr a) (JStr b) = (a = b)"
| "strict_eq a b = False"

subsection \<open>Text\<close>

definition digit_char :: "nat \<Rightarrow> char" where
  "digit_char d = ''0123456789'' ! d"

fun string_of_nat :: "nat \<Rightarrow> string" where
  "string_of_nat n = (if n < 10 then [digit_char n]
     else string_of_nat (n div 10) @ [digit_char (n mod 10)])"

declare string_of_nat.simps [simp del]

definition string_of_int :: "int \<Rightarrow> string" where
  "string_of_int i = (if i < 0 then CHR ''-'' # string_of_nat (nat (- i)) else string_of_nat (nat i))"

fun starts_with :: "string \<Rightarrow> string \<Rightarrow> bool" where
  "starts_with s [] = True"
| "starts_with [] (c # cs) = False"
| "starts_with (d # ds) (c # cs) = (d = c \<and> starts_with ds cs)"

text \<open>\<open>str_includes s needle\<close> is \<open>s.includes(needle)\<close>.\<close>

fun str_includes :: "string \<Rightarrow> string \<Rightarrow> bool" where
  "str_includes [] needle = (needle = [])"
| "str_includes (c # cs) needle = (starts_with (c # cs) needle \<or> str_includes cs needle)"

text \<open>White space that \<open>trim\<close> removes, among the ASCII characters.\<close>

definition is_space :: "char \<Rightarrow> bool" where
  "is_space c = (c \<in> {CHR 0x09, CHR 0x0A, CHR 0x0B, CHR 0x0C, CHR 0x0D, CHR 0x20})"

definition trim :: "string \<Rightarrow> string" where
  "trim s = rev (dropWhile is_space (rev (dropWhile is_space s)))"

fun join :: "string \<Rightarrow> string list \<Rightarrow> string" where
  "join sep [] = []"
| "join sep [s] = s"
| "join sep (s # t # ss) = s @ sep @ join sep (t # ss)"

definition lower_char :: "char \<Rightarrow> char" where
  "lower_char c =
     (case map_of (zip ''ABCDEFGHIJKLMNOPQRSTUVWXYZ'' ''abcdefghijklmnopqrstuvwxyz'') c of
        None \<Rightarrow> c
      | Some l \<Rightarrow> l)"

definition toLowerCase :: "string \<Rightarrow> string" where
  "toLowerCase s = map lower_char s"

text \<open>\<open>String(v)\<close>, also the text a template literal puts for \<open>${v}\<close>.\<close>

fun js_String :: "jsval \<Rightarrow> string" where
  "js_String JUndefined = ''undefined''"
| "js_String JNull = ''null''"
| "js_String (JBool b) = (if b then ''true'' else ''false'')"
| "js_String (JNum n) = string_of_int n"
| "js_String (JStr s) = s"
| "js_String (JArr xs) = join '','' (map (\<lambda>x. if nullish x then [] else js_String x) xs)"
| "js_String (JObj kvs) = ''[object Object]''"

definition hex_char :: "nat \<Rightarrow> char" where
  "hex_char d = ''0123456789abcdef'' ! d"

text \<open>The escapes of \<open>JSON.stringify\<close> on a string.\<close>

definition json_escape_char :: "char \<Rightarrow> string" where
  \<open>json_escape_char c =
    (if c = CHR 0x22 then [CHR 0x5C, CHR 0x22]
     else if c = CHR 0x5C then [CHR 0x5C, CHR 0x5C]
     else if c = CHR 0x08 then [CHR 0x5C, CHR ''b'']
     else if c = CHR 0x0C then [CHR 0x5C, CHR ''f'']
     else if c = CHR 0x0A then [CHR 0x5C, CHR ''n'']
     else if c = CHR 0x0D then [CHR 0x5C, CHR ''r'']
     else if c = CHR 0x09 then [CHR 0x5C, CHR ''t'']
     else if (of_char c :: nat) < 32 then
       [CHR 0x5C, CHR ''u'', CHR ''0'', CHR ''0'', hex_char (of_char c div 16), hex_char (of_char c mod 16)]
     else [c])\<close>

definition json_quote :: "string \<Rightarrow> string" where
  "json_quote s = CHR 0x22 # concat (map json_escape_char s) @ [CHR 0x22]"

text \<open>\<open>JSON.stringify\<close> below the top level: an \<open>undefined\<close> array element is written
  \<open>null\<close>, an \<open>undefined\<close> property is left out.\<close>

fun stringify_val :: "jsval \<Rightarrow> string"
  and stringify_elems :: "jsval list \<Rightarrow> string list"
  and stringify_props :: "(string \<times> jsval) list \<Rightarrow> string list" where
  "stringify_val JUndefined = ''null''"
| "stringify_val JNull = ''null''"
| "stringify_val (JBool b) = (if b then ''true'' else ''false'')"
| "stringify_val (JNum n) = string_of_int n"
| "stringify_val (JStr s) = json_quote s"
| "stringify_val (JArr xs) = ''['' @ join '','' (stringify_elems xs) @ '']''"
| "stringify_val (JObj kvs) = ''{'' @ join '','' (stringify_props kvs) @ ''}''"
| "stringify_elems [] = []"
| "stringify_elems (x # xs) = stringify_val x # stringify_elems xs"
| "stringify_props [] = []"
| "stringify_props ((k, v) # kvs) =
     (if v = JUndefined then stringify_props kvs
      else (json_quote k @ '':'' @ stringify_val v) # stringify_props kvs)"

text \<open>\<open>JSON.stringify(v)\<close>; it returns \<open>undefined\<close> (\<open>None\<close>) on \<open>undefined\<close>.\<close>

definition JSON_stringify :: "jsval \<Rightarrow> string option" where
  "JSON_stringify v = (if v = JUndefined then None else Some (stringify_val v))"

text \<open>The text a template literal puts for a string that may be \<open>undefined\<close>.\<close>

definition tmpl :: "string option \<Rightarrow> string" where
  "tmpl s = (case s of None \<Rightarrow> ''undefined'' | Some t \<Rightarrow> t)"

text \<open>\<open>typeof v === 'string' ? v : JSON.stringify(v)\<close>.\<close>

fun as_text :: "jsval \<Rightarrow> string option" where
  "as_text (JStr s) = Some s"
| "as_text v = JSON_stringify v"

section \<open>Deep comparison\<close>

text \<open>
  \<open>deepCompare\<close> of the runner. \<open>deepCompare_elems\<close> is its loop over the indices of the
  first array (a read past the end of the second array gives \<open>undefined\<close>), and
  \<open>deepCompare_keys\<close> its loop over the keys of the first mapping, the entries still to
  visit as first argument.
\<close>

fun deepCompare :: "jsval \<Rightarrow> jsval \<Rightarrow> bool"
  and deepCompare_elems :: "jsval list \<Rightarrow> jsval list \<Rightarrow> bool"
  and deepCompare_keys :: "(string \<times> jsval) list \<Rightarrow> (string \<times> jsval) list \<Rightarrow> bool" where
  "deepCompare obj1 obj2 =
     (if strict_eq obj1 obj2 then True
      else if typeof obj1 \<noteq> ''object'' \<or> obj1 = JNull \<or> typeof obj2 \<noteq> ''object'' \<or> obj2 = JNull
        then False
      else (case obj1 of
          JArr xs \<Rightarrow>
            (case obj2 of
               JArr ys \<Rightarrow> (if length xs \<noteq> length ys then False else deepCompare_elems xs ys)
             | _ \<Rightarrow> False)
        | JObj kvs1 \<Rightarrow>
            (case obj2 of
               JArr ys \<Rightarrow> False
             | JObj kvs2 \<Rightarrow>
                 (if length kvs1 \<noteq> length kvs2 then False else deepCompare_keys kvs1 kvs2)
             | _ \<Rightarrow> False)
        | _ \<Rightarrow> False))"
| "deepCompare_elems [] ys = True"
| "deepCompare_elems (x # xs) ys =
     (if \<not> deepCompare x (case ys of [] \<Rightarrow> JUndefined | y # _ \<Rightarrow> y) then False
      else deepCompare_elems xs (case ys of [] \<Rightarrow> [] | _ # ys' \<Rightarrow> ys'))"
| "deepCompare_keys [] kvs2 = True"
| "deepCompare_keys ((k, v) # rest) kvs2 =
     (if k \<notin> set (map fst kvs2) then False
      else if \<not> deepCompare v (lookup kvs2 k) then False
      else deepCompare_keys rest kvs2)"

text \<open>A parsed value is well formed when the keys of each of its mappings are distinct.\<close>

fun wf_val :: "jsval \<Rightarrow> bool" where
  "wf_val (JArr xs) = list_all wf_val xs"
| "wf_val (JObj kvs) = (distinct (map fst kvs) \<and> list_all (\<lambda>kv. wf_val (snd kv)) kvs)"
| "wf_val v = True"

fun is_primitive :: "jsval \<Rightarrow> bool" where
  "is_primitive (JArr xs) = False"
| "is_primitive (JObj kvs) = False"
| "is_primitive v = True"

section \<open>Library functions the runner calls\<close>

text \<open>
  The regular expression engine, the JSONPath evaluator, the JSON and YAML parsers and
  the number parser are libraries outside the repository. The model takes them as
  parameters:
  \<^item> \<open>regexp_test p s\<close> is \<open>new RegExp(p).test(s)\<close>, an error when \<open>p\<close> does not compile;
  \<^item> \<open>regexp_exec p s\<close> is \<open>new RegExp(p).exec(s)\<close>: \<open>None\<close> for \<open>null\<close>, else the match
    array, a group that took no part being \<open>undefined\<close>;
  \<^item> \<open>number_of_string s\<close> is \<open>Number(s)\<close>, \<open>None\<close> for NaN;
  \<^item> \<open>jsonpath path json\<close> is \<open>JSONPath({path, json})\<close>;
  \<^item> \<open>json_parse\<close> is \<open>JSON.parse\<close>, \<open>yaml_load\<close> is \<open>yaml.load\<close>, \<open>yaml_dump\<close> is
    \<open>yaml.dump\<close>.
\<close>

record lib =
  regexp_test :: "string \<Rightarrow> string \<Rightarrow> error + bool"
  regexp_exec :: "string \<Rightarrow> string \<Rightarrow> error + jsval list option"
  number_of_string :: "string \<Rightarrow> int option"
  jsonpath :: "jsval \<Rightarrow> jsval \<Rightarrow> error + jsval list"
  json_parse :: "string \<Rightarrow> error + jsval"
  yaml_load :: "string \<Rightarrow> error + jsval"
  yaml_dump :: "jsval \<Rightarrow> string"

text \<open>The source text of \<open>new RegExp(v)\<close>: \<open>undefined\<close> gives the empty pattern.\<close>

definition regexp_source :: "jsval \<Rightarrow> string" where
  "regexp_source v = (if v = JUndefined then ''(?:)'' else js_String v)"

text \<open>\<open>Number(v)\<close>.\<close>

fun to_number :: "lib \<Rightarrow> jsval \<Rightarrow> int option" where
  "to_number L JUndefined = None"
| "to_number L JNull = Some 0"
| "to_number L (JBool b) = Some (if b then 1 else 0)"
| "to_number L (JNum n) = Some n"
| "to_number L (JStr s) = number_of_string L s"
| "to_number L v = number_of_string L (js_String v)"

text \<open>\<open>a > b\<close> on numbers: false when either side is NaN.\<close>

definition num_gt :: "int option \<Rightarrow> int option \<Rightarrow> bool" where
  "num_gt a b = (case a of None \<Rightarrow> False | Some x \<Rightarrow> (case b of None \<Rightarrow> False | Some y \<Rightarrow> x > y))"

section \<open>The comparator engine\<close>

text \<open>
  \<open>comparator_result\<close> is the \<open>switch\<close> of \<open>compareValue\<close>: the value it leaves in
  \<open>result\<close>, or the error raised inside it. \<open>compareValue\<close> is the whole function; it
  returns nothing, or raises.
\<close>

definition comparator_result :: "lib \<Rightarrow> jsval \<Rightarrow> jsval \<Rightarrow> error + bool" where
  "comparator_result L actual comparison =
     (let actualAsString = as_text actual;
          comparator = get_prop comparison ''comparator'';
          v = get_prop comparison ''value''
      in if comparator = JStr ''exists'' then Inr (actual \<noteq> JUndefined \<and> actual \<noteq> JNull)
         else if comparator = JStr ''equals'' then Inr (deepCompare actual v)
         else if comparator = JStr ''contains'' then
           (case actualAsString of
              None \<Rightarrow> Inl (TypeError ''Cannot read properties of undefined (reading 'includes')'')
            | Some s \<Rightarrow> Inr (str_includes s (js_String v)))
         else if comparator = JStr ''matches'' then
           regexp_test L (regexp_source v) (tmpl actualAsString)
         else if comparator = JStr ''greaterThan'' then
           Inr (num_gt (to_number L actual) (to_number L v))
         else if comparator = JStr ''lessThan'' then
           Inr (num_gt (to_number L v) (to_number L actual))
         else Inl (Error (''Unknown comparator: '' @ js_String comparator)))"

definition failure_message :: "string \<Rightarrow> jsval \<Rightarrow> string option \<Rightarrow> string" where
  "failure_message description comparison actualAsString =
     (let comparator = get_prop comparison ''comparator'';
          operation = (if truthy (get_prop comparison ''negate'')
                       then ''not '' @ js_String comparator else js_String comparator);
          valueStr = (if comparator \<noteq> JStr ''exists''
                      then '' '' @ tmpl (JSON_stringify (get_prop comparison ''value'')) else [])
      in description @ '' comparison failed: expected to '' @ operation @ valueStr
           @ '', found '' @ tmpl actualAsString)"

definition compareValue :: "lib \<Rightarrow> jsval \<Rightarrow> jsval \<Rightarrow> string \<Rightarrow> error + unit" where
  "compareValue L actual comparison description =
     (if nullish comparison
      then Inl (TypeError ''Cannot read properties of undefined (reading 'comparator')'')
      else case comparator_result L actual comparison of
          Inl e \<Rightarrow> Inl e
        | Inr result \<Rightarrow>
            (let finalResult = (if truthy (get_prop comparison ''negate'') then \<not> result else result)
             in if \<not> finalResult
                then Inl (Error (failure_message description comparison (as_text actual)))
                else Inr ()))"

definition supported_comparators :: "string list" where
  "supported_comparators =
     [''exists'', ''equals'', ''contains'', ''matches'', ''greaterThan'', ''lessThan'']"

text \<open>The mapping \<open>{comparator: c, value: v, negate: n}\<close>.\<close>

definition comparison_of :: "string \<Rightarrow> jsval \<Rightarrow> bool \<Rightarrow> jsval" where
  "comparison_of c v n = JObj [(''comparator'', JStr c), (''value'', v), (''negate'', JBool n)]"

section \<open>A small library instance\<close>

text \<open>
  A concrete instance of the library parameters, small enough to evaluate, for the
  worked examples: a pattern is a literal, or a literal between two word-boundary
  anchors \<open>\b\<close>, and the pattern \<open>(\<close> does not compile; a JSONPath is \<open>$\<close>
  followed by \<open>.key\<close> steps; a number is a run of decimal digits. Every general theorem below holds for all libraries, not only this
  one.
\<close>

definition is_word_char :: "char \<Rightarrow> bool" where
  "is_word_char c = (let n = (of_char c :: nat) in
     (48 \<le> n \<and> n \<le> 57) \<or> (65 \<le> n \<and> n \<le> 90) \<or> (97 \<le> n \<and> n \<le> 122) \<or> n = 95)"

text \<open>\<open>word_includes pw s w\<close>: the word \<open>w\<close> occurs in \<open>s\<close> with no word character
  right before it (\<open>pw\<close> tells whether the character before \<open>s\<close> is one) or after.\<close>

fun word_includes :: "bool \<Rightarrow> string \<Rightarrow> string \<Rightarrow> bool" where
  "word_includes pw [] w = False"
| "word_includes pw (c # cs) w =
     ((\<not> pw \<and> starts_with (c # cs) w \<and>
        (case drop (length w) (c # cs) of [] \<Rightarrow> True | d # _ \<Rightarrow> \<not> is_word_char d))
      \<or> word_includes (is_word_char c) cs w)"

definition sample_regexp_test :: "string \<Rightarrow> string \<Rightarrow> error + bool" where
  "sample_regexp_test p s =
     (if p = ''('' then Inl (SyntaxError ''Invalid regular expression: /(/: Unterminated group'')
      else if 4 \<le> length p \<and> take 2 p = [CHR 0x5C, CHR ''b''] \<and> drop (length p - 2) p = [CHR 0x5C, CHR ''b'']
      then Inr (word_includes False s (take (length p - 4) (drop 2 p)))
      else Inr (str_includes s p))"

fun digits_value :: "string \<Rightarrow> nat \<Rightarrow> nat option" where
  "digits_value [] acc = Some acc"
| "digits_value (c # cs) acc =
     (let n = (of_char c :: nat) in
      if 48 \<le> n \<and> n \<le> 57 then digits_value cs (10 * acc + (n - 48)) else None)"

definition sample_number_of_string :: "string \<Rightarrow> int option" where
  "sample_number_of_string s = map_option int (digits_value s 0)"

text \<open>The steps of a path \<open>$.a.b\<close>: the texts between the dots.\<close>

fun split_dots :: "string \<Rightarrow> string \<Rightarrow> string list" where
  "split_dots [] cur = [rev cur]"
| "split_dots (c # cs) cur = (if c = CHR ''.'' then rev cur # split_dots cs [] else split_dots cs (c # cur))"

fun walk_keys :: "string list \<Rightarrow> jsval \<Rightarrow> jsval list" where
  "walk_keys [] v = [v]"
| "walk_keys (k # ks) (JObj kvs) = (if k \<in> set (map fst kvs) then walk_keys ks (lookup kvs k) else [])"
| "walk_keys (k # ks) v = []"

definition sample_jsonpath :: "jsval \<Rightarrow> jsval \<Rightarrow> error + jsval list" where
  "sample_jsonpath path json =
     (case path of
        JStr p \<Rightarrow>
          (case split_dots p [] of
             [] \<Rightarrow> Inr []
           | r # ks \<Rightarrow> if r = ''$'' then Inr (walk_keys ks json) else Inr [])
      | _ \<Rightarrow> Inl (TypeError ''path must be a string''))"

definition sample_lib :: lib where
  "sample_lib = \<lparr>
     regexp_test = sample_regexp_test,
     regexp_exec = (\<lambda>p s. Inr None),
     number_of_string = sample_number_of_string,
     jsonpath = sample_jsonpath,
     json_parse = (\<lambda>s. Inl (SyntaxError ''Unexpected token'')),
     yaml_load = (\<lambda>s. Inl (Error ''bad indentation'')),
     yaml_dump = (\<lambda>v. [])
   \<rparr>"

section \<open>Value extraction\<close>

text \<open>
  The shared variable store is \<open>process.env\<close>: a map from names to texts.
  \<open>Object.entries\<close> lists the entries of a mapping in order, and the elements of an
  array or the characters of a string under their indices.
\<close>

type_synonym env = "string \<Rightarrow> string option"

fun indexed :: "nat \<Rightarrow> jsval list \<Rightarrow> (string \<times> jsval) list" where
  "indexed i [] = []"
| "indexed i (x # xs) = (string_of_nat i, x) # indexed (Suc i) xs"

fun object_entries :: "jsval \<Rightarrow> (string \<times> jsval) list" where
  "object_entries (JObj kvs) = kvs"
| "object_entries (JArr xs) = indexed 0 xs"
| "object_entries (JStr s) = indexed 0 (map (\<lambda>c. JStr [c]) s)"
| "object_entries v = []"

text \<open>\<open>!== undefined\<close> and a read of element \<open>group\<close> of a match array; a \<open>group\<close> that
  is not a number in range reads \<open>undefined\<close> (the named properties of a match array,
  such as \<open>index\<close>, are not modelled).\<close>

fun match_group :: "jsval list \<Rightarrow> jsval \<Rightarrow> jsval" where
  "match_group m (JNum n) = (if 0 \<le> n \<and> nat n < length m then m ! nat n else JUndefined)"
| "match_group m g = JUndefined"

text \<open>
  \<open>extract_value\<close> is the chain of \<open>if\<close>s in the loop body of \<open>applySetVars\<close>: the value
  it leaves in \<open>value\<close> for one rule, or the error it raises. \<open>data\<close> is the result
  mapping built by an executor.
\<close>

definition extract_value :: "lib \<Rightarrow> string \<Rightarrow> jsval \<Rightarrow> jsval \<Rightarrow> string \<Rightarrow> error + jsval" where
  \<open>extract_value L varName rule data testType =
     (if nullish rule
      then Inl (TypeError ''Cannot read properties of null (reading 'jsonPath')'')
      else if truthy (get_prop rule ''jsonPath'') then
        (if testType \<noteq> ''http'' \<and> testType \<noteq> ''command''
         then Inl (Error (''setVars "'' @ varName @ ''": "jsonPath" source is not valid for ''
                @ testType @ '' tests''))
         else
           (case (if testType = ''http''
                  then (case get_prop data ''body'' of
                          JStr s \<Rightarrow> json_parse L s
                        | b \<Rightarrow> Inr b)
                  else Inr (get_prop data ''json'')) of
              Inl e \<Rightarrow> Inl e
            | Inr jsonData \<Rightarrow>
                if \<not> truthy jsonData
                then Inl (Error (''setVars "'' @ varName
                       @ ''": no JSON data available for jsonPath extraction''))
                else
                  (case jsonpath L (get_prop rule ''jsonPath'') jsonData of
                     Inl e \<Rightarrow> Inl e
                   | Inr results \<Rightarrow>
                       if length results = 0
                       then Inl (Error (''setVars "'' @ varName @ ''": jsonPath "''
                              @ js_String (get_prop rule ''jsonPath'') @ ''" returned no results''))
                       else Inr (if length results = 1 then results ! 0 else JArr results))))
      else if truthy (get_prop rule ''header'') then
        (if testType \<noteq> ''http''
         then Inl (Error (''setVars "'' @ varName @ ''": "header" source is only valid for http tests''))
         else
           (case get_prop rule ''header'' of
              JStr h \<Rightarrow>
                Inr (if nullish (get_prop data ''headers'') then JUndefined
                     else get_prop (get_prop data ''headers'') (toLowerCase h))
            | _ \<Rightarrow> Inl (TypeError ''rule.header.toLowerCase is not a function'')))
      else if strict_eq (get_prop rule ''statusCode'') (JBool True) then
        (if testType \<noteq> ''http''
         then Inl (Error (''setVars "'' @ varName @ ''": "statusCode" source is only valid for http tests''))
         else Inr (get_prop data ''statusCode''))
      else if strict_eq (get_prop rule ''body'') (JBool True) then
        (if testType \<noteq> ''http''
         then Inl (Error (''setVars "'' @ varName @ ''": "body" source is only valid for http tests''))
         else Inr (case as_text (get_prop data ''body'') of None \<Rightarrow> JUndefined | Some s \<Rightarrow> JStr s))
      else if strict_eq (get_prop rule ''stdout'') (JBool True) then
        (if testType \<noteq> ''command''
         then Inl (Error (''setVars "'' @ varName @ ''": "stdout" source is only valid for command tests''))
         else Inr (get_prop data ''stdout''))
      else if strict_eq (get_prop rule ''stderr'') (JBool True) then
        (if testType \<noteq> ''command''
         then Inl (Error (''setVars "'' @ varName @ ''": "stderr" source is only valid for command tests''))
         else Inr (get_prop data ''stderr''))
      else if strict_eq (get_prop rule ''exitCode'') (JBool True) then
        (if testType \<noteq> ''command''
         then Inl (Error (''setVars "'' @ varName @ ''": "exitCode" source is only valid for command tests''))
         else Inr (get_prop data ''exitCode''))
      else if strict_eq (get_prop rule ''value'') (JBool True) then
        (if testType \<noteq> ''wait''
         then Inl (Error (''setVars "'' @ varName @ ''": "value" source is only valid for wait tests''))
         else Inr (get_prop data ''extractedValue''))
      else if truthy (get_prop rule ''regex'') then
        (if testType = ''wait''
         then Inl (Error (''setVars "'' @ varName @ ''": "regex" source is not valid for wait tests''))
         else
           (case (if testType = ''http''
                  then Inr (case as_text (get_prop data ''body'') of None \<Rightarrow> JUndefined | Some s \<Rightarrow> JStr s)
                  else if testType = ''command''
                  then (let source = or_else (get_prop (get_prop rule ''regex'') ''source'') (JStr ''stdout'')
                        in if source \<noteq> JStr ''stdout'' \<and> source \<noteq> JStr ''stderr''
                           then Inl (Error (''setVars "'' @ varName
                                  @ ''": regex source must be "stdout" or "stderr", got "''
                                  @ js_String source @ ''"''))
                           else Inr (get_prop data (js_String source)))
                  else Inr JUndefined) of
              Inl e \<Rightarrow> Inl e
            | Inr text_found \<Rightarrow>
                if nullish text_found
                then Inl (Error (''setVars "'' @ varName @ ''": no text available for regex extraction''))
                else
                  (case regexp_exec L (regexp_source (get_prop (get_prop rule ''regex'') ''pattern''))
                          (js_String text_found) of
                     Inl e \<Rightarrow> Inl e
                   | Inr None \<Rightarrow>
                       Inl (Error (''setVars "'' @ varName @ ''": regex "''
                         @ js_String (get_prop (get_prop rule ''regex'') ''pattern'') @ ''" did not match''))
                   | Inr (Some m) \<Rightarrow>
                       (let group = (if nullish (get_prop (get_prop rule ''regex'') ''group'') then JNum 1
                                     else get_prop (get_prop rule ''regex'') ''group'');
                            v = match_group m group
                        in if v = JUndefined
                           then Inl (Error (''setVars "'' @ varName @ ''": regex capture group ''
                                  @ js_String group @ '' not found in match''))
                           else Inr v))))
      else Inl (Error (''setVars "'' @ varName @ ''": unknown extraction rule: ''
             @ tmpl (JSON_stringify rule))))\<close>

text \<open>
  \<open>apply_rules\<close> is the loop of \<open>applySetVars\<close> over the entries of \<open>setVars\<close>. A rule that
  raises ends the loop; what earlier rules published stays published.
\<close>

fun apply_rules :: "lib \<Rightarrow> (string \<times> jsval) list \<Rightarrow> jsval \<Rightarrow> string \<Rightarrow> env \<Rightarrow> (error + unit) \<times> env" where
  "apply_rules L [] data testType env = (Inr (), env)"
| "apply_rules L ((varName, rule) # rest) data testType env =
     (case extract_value L varName rule data testType of
        Inl e \<Rightarrow> (Inl e, env)
      | Inr v \<Rightarrow>
          if v = JUndefined \<or> v = JNull
          then (Inl (Error (''setVars '' @ [CHR 0x22] @ varName @ [CHR 0x22]
                  @ '': extracted value is null or undefined'')), env)
          else (let strValue = tmpl (as_text v)
                in apply_rules L rest data testType (env(varName \<mapsto> trim strValue))))"

definition applySetVars :: "lib \<Rightarrow> jsval \<Rightarrow> jsval \<Rightarrow> string \<Rightarrow> env \<Rightarrow> (error + unit) \<times> env" where
  "applySetVars L setVars data testType env =
     (if \<not> truthy setVars \<or> typeof setVars \<noteq> ''object'' then (Inr (), env)
      else apply_rules L (object_entries setVars) data testType env)"

text \<open>The kinds of test each extraction source is valid for, as the documentation of
  \<open>applySetVars\<close> lists them.\<close>

definition extraction_sources :: "string list" where
  "extraction_sources = [''jsonPath'', ''header'', ''statusCode'', ''body'', ''stdout'',
     ''stderr'', ''exitCode'', ''value'', ''regex'']"

definition valid_kinds :: "string \<Rightarrow> string list" where
  "valid_kinds src =
     (if src \<in> set [''jsonPath'', ''regex''] then [''http'', ''command'']
      else if src \<in> set [''header'', ''statusCode'', ''body''] then [''http'']
      else if src \<in> set [''stdout'', ''stderr'', ''exitCode''] then [''command'']
      else if src = ''value'' then [''wait'']
      else [])"

text \<open>A rule with the single source \<open>src\<close> selects it when the value under the key is
  truthy (\<open>jsonPath\<close>, \<open>header\<close>, \<open>regex\<close>) or is \<open>true\<close> (the others).\<close>

definition selects :: "string \<Rightarrow> jsval \<Rightarrow> bool" where
  "selects src v =
     (if src \<in> set [''jsonPath'', ''header'', ''regex''] then truthy v else v = JBool True)"

definition invalid_source_message :: "string \<Rightarrow> string \<Rightarrow> string \<Rightarrow> string" where
  \<open>invalid_source_message varName src testType =
     ''setVars "'' @ varName @ ''": "'' @ src @ ''" source is ''
       @ (if src \<in> set [''jsonPath'', ''regex''] then ''not valid for '' @ testType
          else ''only valid for '' @ hd (valid_kinds src))
       @ '' tests''\<close>

section \<open>Validation of an HTTP response\<close>

text \<open>\<open>for (const x of v)\<close>: the elements of an array, the characters of a string; any
  other value is not iterable.\<close>

fun iterate :: "jsval \<Rightarrow> error + jsval list" where
  "iterate (JArr xs) = Inr xs"
| "iterate (JStr s) = Inr (map (\<lambda>c. JStr [c]) s)"
| "iterate v = Inl (TypeError ''object is not iterable'')"

text \<open>\<open>k in v\<close> for a value of type \<open>object\<close> that is not \<open>null\<close>, on a data key.\<close>

fun has_key :: "string \<Rightarrow> jsval \<Rightarrow> bool" where
  "has_key k (JObj kvs) = (k \<in> set (map fst kvs))"
| "has_key k v = False"

text \<open>\<open>s.replace('$', '')\<close>: the first dollar sign removed.\<close>

fun remove_first_dollar :: "string \<Rightarrow> string" where
  "remove_first_dollar [] = []"
| "remove_first_dollar (c # cs) = (if c = CHR ''$'' then cs else c # remove_first_dollar cs)"

text \<open>
  \<open>validateBodyContains\<close>, the function \<open>validateHttpExpectations\<close> defines for one
  item of \<open>bodyContains\<close>. \<open>rawBody\<close> is the text of the response body.
\<close>

definition validateBodyContains :: "lib \<Rightarrow> env \<Rightarrow> string option \<Rightarrow> jsval \<Rightarrow> error + unit" where
  \<open>validateBodyContains L env rawBody bodyContainsItem =
     (if bodyContainsItem = JNull
      then Inl (TypeError ''Cannot use 'in' operator to search for 'negate' in null'')
      else if bodyContainsItem = JUndefined
      then Inl (TypeError ''Cannot read properties of undefined (reading 'value')'')
      else
        (let containsNegate = (typeof bodyContainsItem = ''object'' \<and> has_key ''negate'' bodyContainsItem
                                 \<and> truthy (get_prop bodyContainsItem ''negate''));
             matchWord = (typeof bodyContainsItem = ''object'' \<and> has_key ''matchword'' bodyContainsItem
                            \<and> truthy (get_prop bodyContainsItem ''matchword''));
             containsValue0 = or_else (get_prop bodyContainsItem ''value'') bodyContainsItem
         in case containsValue0 of
              JStr s \<Rightarrow>
                (let containsValue = (if starts_with s ''$'' then env (remove_first_dollar s) else Some s);
                     negate = containsNegate
                 in case (if matchWord
                          then regexp_test L ([CHR 0x5C, CHR ''b''] @ tmpl containsValue @ [CHR 0x5C, CHR ''b''])
                                 (tmpl rawBody)
                          else (case rawBody of
                                  None \<Rightarrow> Inl (TypeError ''Cannot read properties of undefined (reading 'includes')'')
                                | Some body \<Rightarrow> Inr (str_includes body (tmpl containsValue)))) of
                      Inl e \<Rightarrow> Inl e
                    | Inr contains \<Rightarrow>
                        if (if negate then contains else \<not> contains)
                        then Inl (Error (if negate
                               then ''Body should not contain substring but does: "'' @ tmpl containsValue @ ''"''
                               else ''Body does not contain substring: "'' @ tmpl containsValue @ ''"''))
                        else Inr ())
            | _ \<Rightarrow> Inl (TypeError ''containsValue.startsWith is not a function'')))\<close>

definition validateBodyRegex :: "lib \<Rightarrow> string option \<Rightarrow> jsval \<Rightarrow> error + unit" where
  \<open>validateBodyRegex L rawBody bodyRegexItem =
     (if bodyRegexItem = JNull
      then Inl (TypeError ''Cannot use 'in' operator to search for 'negate' in null'')
      else if bodyRegexItem = JUndefined
      then Inl (TypeError ''Cannot read properties of undefined (reading 'value')'')
      else
        (let negate = (typeof bodyRegexItem = ''object'' \<and> has_key ''negate'' bodyRegexItem
                         \<and> truthy (get_prop bodyRegexItem ''negate''));
             regexValue = or_else (get_prop bodyRegexItem ''value'') bodyRegexItem
         in case regexp_test L (regexp_source regexValue) (tmpl rawBody) of
              Inl e \<Rightarrow> Inl e
            | Inr matches \<Rightarrow>
                if (if negate then matches else \<not> matches)
                then Inl (Error (if negate
                       then ''Body should not match regex but does: '' @ js_String regexValue
                       else ''Body does not match regex: '' @ js_String regexValue))
                else Inr ()))\<close>

text \<open>\<open>forEach\<close> and \<open>for\<close> loops that stop at the first error.\<close>

fun each :: "('a \<Rightarrow> error + unit) \<Rightarrow> 'a list \<Rightarrow> error + unit" where
  "each f [] = Inr ()"
| "each f (x # xs) = (case f x of Inl e \<Rightarrow> Inl e | Inr u \<Rightarrow> each f xs)"

text \<open>The body of the loop over \<open>expect.bodyJsonPath\<close>.\<close>

definition validateBodyJsonPath :: "lib \<Rightarrow> jsval \<Rightarrow> jsval \<Rightarrow> error + unit" where
  \<open>validateBodyJsonPath L response jp =
     (if nullish jp then Inl (TypeError ''Cannot read properties of null (reading 'path')'')
      else case jsonpath L (get_prop jp ''path'') (get_prop response ''body'') of
          Inl e \<Rightarrow> Inl e
        | Inr results \<Rightarrow>
            if length results = 0 then
              (if truthy (get_prop jp ''negate'') \<and> get_prop jp ''comparator'' = JStr ''exists''
               then Inr ()
               else Inl (Error (''JSONPath "'' @ js_String (get_prop jp ''path'')
                      @ ''" did not return any results'')))
            else compareValue L (results ! 0) jp (''JSONPath '' @ js_String (get_prop jp ''path'')))\<close>

text \<open>The body of the loop over \<open>expect.headers\<close>.\<close>

definition validateHeader :: "lib \<Rightarrow> jsval \<Rightarrow> jsval \<Rightarrow> error + unit" where
  \<open>validateHeader L response headerExp =
     (if nullish headerExp then Inl (TypeError ''Cannot read properties of null (reading 'name')'')
      else case get_prop headerExp ''name'' of
          JStr name \<Rightarrow>
            if nullish (get_prop response ''headers'')
            then Inl (TypeError ''Cannot read properties of undefined'')
            else
              (let headerValue = get_prop (get_prop response ''headers'') (toLowerCase name)
               in if get_prop headerExp ''comparator'' = JStr ''exists''
                  then compareValue L headerValue headerExp (''Header "'' @ name @ ''"'')
                  else if headerValue = JUndefined
                  then Inl (Error (''Header "'' @ name @ ''" not found in response''))
                  else compareValue L headerValue headerExp (''Header "'' @ name @ ''"''))
        | _ \<Rightarrow> Inl (TypeError ''headerExp.name.toLowerCase is not a function''))\<close>

text \<open>\<open>v.length\<close>.\<close>

fun js_length :: "jsval \<Rightarrow> jsval" where
  "js_length (JArr xs) = JNum (int (length xs))"
| "js_length (JStr s) = JNum (int (length s))"
| "js_length v = get_prop v ''length''"

definition validateHttpExpectations :: "lib \<Rightarrow> env \<Rightarrow> jsval \<Rightarrow> jsval \<Rightarrow> error + unit" where
  \<open>validateHttpExpectations L env response expect =
     (if nullish expect
      then Inl (TypeError ''Cannot read properties of undefined (reading 'statusCode')'')
      else if (get_prop expect ''statusCode'' \<noteq> JUndefined
                \<and> \<not> strict_eq (get_prop expect ''statusCode'') (get_prop response ''statusCode'')
                \<and> \<not> isArray (get_prop expect ''statusCode''))
              \<or> (isArray (get_prop expect ''statusCode'')
                \<and> \<not> list_ex (\<lambda>c. strict_eq c (get_prop response ''statusCode''))
                      (case get_prop expect ''statusCode'' of JArr cs \<Rightarrow> cs | _ \<Rightarrow> []))
      then Inl (Error (''Status code mismatch: expected '' @ js_String (get_prop expect ''statusCode'')
             @ '', got '' @ js_String (get_prop response ''statusCode'')))
      else
        (let rawBody = as_text (get_prop response ''body'')
         in case (if get_prop expect ''body'' \<noteq> JUndefined
                     \<and> \<not> deepCompare (get_prop response ''body'') (get_prop expect ''body'')
                  then Inl (Error (''Body mismatch: expected '' @ tmpl (JSON_stringify (get_prop expect ''body''))
                         @ '', got '' @ tmpl (JSON_stringify (get_prop response ''body''))))
                  else Inr ()) of
              Inl e \<Rightarrow> Inl e
            | Inr u \<Rightarrow>
          (case (if truthy (get_prop expect ''bodyContains'')
                 then (case get_prop expect ''bodyContains'' of
                         JArr items \<Rightarrow> each (validateBodyContains L env rawBody) items
                       | item \<Rightarrow> validateBodyContains L env rawBody item)
                 else Inr ()) of
              Inl e \<Rightarrow> Inl e
            | Inr u \<Rightarrow>
          (case (if truthy (get_prop expect ''bodyRegex'')
                 then (case get_prop expect ''bodyRegex'' of
                         JArr items \<Rightarrow> each (validateBodyRegex L rawBody) items
                       | item \<Rightarrow> validateBodyRegex L rawBody item)
                 else Inr ()) of
              Inl e \<Rightarrow> Inl e
            | Inr u \<Rightarrow>
          (case (if truthy (get_prop expect ''bodyJsonPath'')
                 then (case iterate (get_prop expect ''bodyJsonPath'') of
                         Inl e \<Rightarrow> Inl e
                       | Inr jps \<Rightarrow> each (validateBodyJsonPath L response) jps)
                 else Inr ()) of
              Inl e \<Rightarrow> Inl e
            | Inr u \<Rightarrow>
          (if truthy (get_prop expect ''headers'')
              \<and> num_gt (to_number L (js_length (get_prop expect ''headers''))) (Some 0)
           then (case iterate (get_prop expect ''headers'') of
                   Inl e \<Rightarrow> Inl e
                 | Inr hs \<Rightarrow> each (validateHeader L response) hs)
           else Inr ()))))))\<close>

section \<open>Validation of a command result\<close>

definition validateSingleOutputExpectation :: "lib \<Rightarrow> jsval \<Rightarrow> jsval \<Rightarrow> string \<Rightarrow> error + unit" where
  "validateSingleOutputExpectation L actualOutput expectation outputType =
     (if nullish expectation
      then Inl (TypeError ''Cannot read properties of null (reading 'contains')'')
      else if get_prop expectation ''contains'' \<noteq> JUndefined then
        compareValue L actualOutput
          (JObj [(''comparator'', JStr ''contains''), (''value'', get_prop expectation ''contains''),
                 (''negate'', get_prop expectation ''negate'')])
          (outputType @ '' contains'')
      else if get_prop expectation ''matches'' \<noteq> JUndefined \<or> get_prop expectation ''regex'' \<noteq> JUndefined then
        compareValue L actualOutput
          (JObj [(''comparator'', JStr ''matches''),
                 (''value'', or_else (get_prop expectation ''matches'') (get_prop expectation ''regex'')),
                 (''negate'', get_prop expectation ''negate'')])
          (outputType @ '' matches'')
      else if get_prop expectation ''equals'' \<noteq> JUndefined then
        compareValue L actualOutput
          (JObj [(''comparator'', JStr ''equals''), (''value'', get_prop expectation ''equals''),
                 (''negate'', get_prop expectation ''negate'')])
          (outputType @ '' equals'')
      else if get_prop expectation ''exists'' \<noteq> JUndefined then
        compareValue L actualOutput
          (JObj [(''comparator'', JStr ''exists''), (''negate'', get_prop expectation ''negate'')])
          (outputType @ '' exists'')
      else compareValue L actualOutput expectation outputType)"

definition validateOutputExpectations :: "lib \<Rightarrow> jsval \<Rightarrow> jsval \<Rightarrow> string \<Rightarrow> error + unit" where
  "validateOutputExpectations L actualOutput expectations outputType =
     (case expectations of
        JStr s \<Rightarrow>
          validateSingleOutputExpectation L actualOutput (JObj [(''contains'', JStr s)]) outputType
      | JArr exps \<Rightarrow>
          each (\<lambda>exp. validateSingleOutputExpectation L actualOutput exp outputType) exps
      | _ \<Rightarrow> validateSingleOutputExpectation L actualOutput expectations outputType)"

definition validateSingleJsonExpectation :: "lib \<Rightarrow> jsval \<Rightarrow> jsval \<Rightarrow> error + unit" where
  \<open>validateSingleJsonExpectation L actualJson expectation =
     (if nullish expectation
      then Inl (TypeError ''Cannot read properties of null (reading 'path')'')
      else if truthy (get_prop expectation ''path'') then
        (case jsonpath L (get_prop expectation ''path'') actualJson of
           Inl e \<Rightarrow> Inl e
         | Inr matches \<Rightarrow>
             if length matches = 0
             then Inl (Error (''JSONPath "'' @ js_String (get_prop expectation ''path'')
                    @ ''" not found in output''))
             else compareValue L (matches ! 0) expectation
                    (''JSONPath "'' @ js_String (get_prop expectation ''path'') @ ''"''))
      else compareValue L actualJson expectation ''JSON output'')\<close>

definition validateJsonExpectations :: "lib \<Rightarrow> jsval \<Rightarrow> jsval \<Rightarrow> error + unit" where
  "validateJsonExpectations L actualJson expectations =
     (case expectations of
        JArr exps \<Rightarrow> each (validateSingleJsonExpectation L actualJson) exps
      | _ \<Rightarrow> validateSingleJsonExpectation L actualJson expectations)"

text \<open>The body of the loop over \<open>expect.jsonPath\<close>.\<close>

definition validateCommandJsonPath :: "lib \<Rightarrow> jsval \<Rightarrow> jsval \<Rightarrow> error + unit" where
  \<open>validateCommandJsonPath L json pathExp =
     (if nullish pathExp
      then Inl (TypeError ''Cannot read properties of null (reading 'path')'')
      else case jsonpath L (get_prop pathExp ''path'') json of
          Inl e \<Rightarrow> Inl e
        | Inr matches \<Rightarrow>
            if length matches = 0
            then Inl (Error (''JSONPath "'' @ js_String (get_prop pathExp ''path'')
                   @ ''" not found in output''))
            else compareValue L (matches ! 0) pathExp
                   (''JSONPath "'' @ js_String (get_prop pathExp ''path'') @ ''"''))\<close>

definition validateCommandExpectations :: "lib \<Rightarrow> jsval \<Rightarrow> jsval \<Rightarrow> error + unit" where
  "validateCommandExpectations L result expect =
     (case (if get_prop expect ''exitCode'' \<noteq> JUndefined
               \<and> \<not> strict_eq (get_prop result ''exitCode'') (get_prop expect ''exitCode'')
            then Inl (Error (''Exit code mismatch: expected '' @ js_String (get_prop expect ''exitCode'')
                   @ '', got '' @ js_String (get_prop result ''exitCode'')))
            else Inr ()) of
        Inl e \<Rightarrow> Inl e
      | Inr u \<Rightarrow>
     (case (if truthy (get_prop expect ''stdout'')
            then validateOutputExpectations L (get_prop result ''stdout'') (get_prop expect ''stdout'') ''stdout''
            else Inr ()) of
        Inl e \<Rightarrow> Inl e
      | Inr u \<Rightarrow>
     (case (if truthy (get_prop expect ''stderr'')
            then validateOutputExpectations L (get_prop result ''stderr'') (get_prop expect ''stderr'') ''stderr''
            else Inr ()) of
        Inl e \<Rightarrow> Inl e
      | Inr u \<Rightarrow>
     (case (if truthy (get_prop expect ''output'')
            then validateOutputExpectations L (get_prop result ''output'') (get_prop expect ''output'') ''output''
            else Inr ()) of
        Inl e \<Rightarrow> Inl e
      | Inr u \<Rightarrow>
     (case (if truthy (get_prop expect ''json'') then
              (if \<not> truthy (get_prop result ''json'') then
                 (if truthy (get_prop result ''jsonParseError'')
                  then Inl (Error (''JSON parsing failed: '' @ js_String (get_prop result ''jsonParseError'')))
                  else Inl (Error ''No JSON output available for validation''))
               else validateJsonExpectations L (get_prop result ''json'') (get_prop expect ''json''))
            else Inr ()) of
        Inl e \<Rightarrow> Inl e
      | Inr u \<Rightarrow>
     (case get_prop expect ''jsonPath'' of
        JArr pathExps \<Rightarrow>
          (if \<not> truthy (get_prop result ''json'') then
             (if truthy (get_prop result ''jsonParseError'')
              then Inl (Error (''JSON parsing failed, cannot validate jsonPath: ''
                     @ js_String (get_prop result ''jsonParseError'')))
              else Inl (Error ''No JSON output available for jsonPath validation''))
           else each (validateCommandJsonPath L (get_prop result ''json'')) pathExps)
      | _ \<Rightarrow> Inr ()))))))"

section \<open>The world outside the process\<close>

text \<open>
  Requests, subprocesses, the clock and sleeping act on the world outside the process, a
  state of type \<open>'w\<close> that the model threads through every call. What they do is a
  parameter:
  \<^item> \<open>http_exchange test env\<close> is the part of \<open>executeHttpTest\<close> between its two guards
    and the validation: discovery of the service address, interpolation of variables,
    and the request by the strategy the source selects; it yields the response mapping
    \<open>{statusCode, headers, body}\<close> or the error raised there;
  \<open>run_command test env\<close> is the same part of \<open>executeCommandTest\<close>, yielding the result
    mapping \<open>{stdout, stderr, exitCode, output, json, jsonParseError}\<close>;
  \<^item> \<open>exec_sync cmd env\<close> is \<open>execSync(cmd)\<close>: the standard output, or the error raised;
  \<^item> \<open>compare_bodies test env\<close> is \<open>executeHttpBodyComparisonTest\<close> after its two guards;
  \<^item> \<open>now\<close> is \<open>Date.now()\<close> in milliseconds, \<open>sleep ms\<close> a pause of \<open>ms\<close> milliseconds.
  The state of a run is the variable store and the world.
\<close>

record 'w sys =
  http_exchange :: "jsval \<Rightarrow> env \<Rightarrow> 'w \<Rightarrow> (error + jsval) \<times> 'w"
  run_command :: "jsval \<Rightarrow> env \<Rightarrow> 'w \<Rightarrow> (error + jsval) \<times> 'w"
  exec_sync :: "string \<Rightarrow> env \<Rightarrow> 'w \<Rightarrow> (error + string) \<times> 'w"
  compare_bodies :: "jsval \<Rightarrow> env \<Rightarrow> 'w \<Rightarrow> (error + bool) \<times> 'w"
  now :: "'w \<Rightarrow> int"
  sleep :: "int \<Rightarrow> 'w \<Rightarrow> 'w"

type_synonym 'w state = "env \<times> 'w"

section \<open>The executors of the HTTP, command and body-comparison tests\<close>

definition executeHttpTest :: "'w sys \<Rightarrow> lib \<Rightarrow> jsval \<Rightarrow> 'w state \<Rightarrow> (error + bool) \<times> 'w state" where
  \<open>executeHttpTest S L test s =
     (case s of (env, w) \<Rightarrow>
      if \<not> truthy (get_prop test ''http'')
      then (Inl (Error ''HTTP configuration missing for HTTP test''), s)
      else if truthy (get_prop test ''setVars'') \<and> \<not> truthy (get_prop test ''expect'')
      then (Inl (Error ''setVars requires "expect" to be defined on the test''), s)
      else
        (case http_exchange S test env w of
           (Inl e, w') \<Rightarrow> (Inl e, (env, w'))
         | (Inr response, w') \<Rightarrow>
             (case validateHttpExpectations L env response (get_prop test ''expect'') of
                Inl e \<Rightarrow> (Inl e, (env, w'))
              | Inr u \<Rightarrow>
                  if truthy (get_prop test ''setVars'')
                  then (case applySetVars L (get_prop test ''setVars'') response ''http'' env of
                          (Inl e, env') \<Rightarrow> (Inl e, (env', w'))
                        | (Inr u', env') \<Rightarrow> (Inr True, (env', w')))
                  else (Inr True, (env, w')))))\<close>

definition executeCommandTest :: "'w sys \<Rightarrow> lib \<Rightarrow> jsval \<Rightarrow> 'w state \<Rightarrow> (error + bool) \<times> 'w state" where
  \<open>executeCommandTest S L test s =
     (case s of (env, w) \<Rightarrow>
      if \<not> truthy (get_prop test ''command'')
      then (Inl (Error ''Command configuration missing for command test''), s)
      else if truthy (get_prop test ''setVars'') \<and> \<not> truthy (get_prop test ''expect'')
      then (Inl (Error ''setVars requires "expect" to be defined on the test''), s)
      else if typeof (get_prop test ''command'') = ''string''
      then (Inl (Error ''Command must be an object with a "command" property. Use: { command: "your command here" }''), s)
      else if \<not> truthy (get_prop (get_prop test ''command'') ''command'')
      then (Inl (Error ''Command object must have a "command" property with the command string''), s)
      else
        (case run_command S test env w of
           (Inl e, w') \<Rightarrow> (Inl e, (env, w'))
         | (Inr result, w') \<Rightarrow>
             (case (if truthy (get_prop test ''expect'')
                    then validateCommandExpectations L result (get_prop test ''expect'')
                    else Inr ()) of
                Inl e \<Rightarrow> (Inl e, (env, w'))
              | Inr u \<Rightarrow>
                  if truthy (get_prop test ''setVars'')
                  then (case applySetVars L (get_prop test ''setVars'') result ''command'' env of
                          (Inl e, env') \<Rightarrow> (Inl e, (env', w'))
                        | (Inr u', env') \<Rightarrow> (Inr True, (env', w')))
                  else (Inr True, (env, w')))))\<close>

definition executeHttpBodyComparisonTest ::
  "'w sys \<Rightarrow> jsval \<Rightarrow> 'w state \<Rightarrow> (error + bool) \<times> 'w state" where
  "executeHttpBodyComparisonTest S test s =
     (case s of (env, w) \<Rightarrow>
      if \<not> truthy (get_prop test ''httpBodyComparison'')
      then (Inl (Error ''HTTP body comparison configuration missing for body comparison test''), s)
      else if \<not> truthy (get_prop (get_prop test ''httpBodyComparison'') ''request1'')
              \<or> \<not> truthy (get_prop (get_prop test ''httpBodyComparison'') ''request2'')
      then (Inl (Error ''Both request1 and request2 are required for HTTP body comparison''), s)
      else (case compare_bodies S test env w of (r, w') \<Rightarrow> (r, (env, w'))))"

section \<open>Kubernetes selectors\<close>

definition is_name_start :: "char \<Rightarrow> bool" where
  "is_name_start c = (let n = (of_char c :: nat) in
     (65 \<le> n \<and> n \<le> 90) \<or> (97 \<le> n \<and> n \<le> 122) \<or> n = 95)"

text \<open>
  \<open>scan_reference cs\<close> matches the rest of the pattern \<open>\$\{?([A-Z_][A-Z0-9_]*)\}?\<close>
  (flags \<open>gi\<close>) right after a dollar sign: the text matched, the name, and what follows
  the match.
\<close>

definition brace_opened :: "string \<Rightarrow> bool" where
  "brace_opened cs = (case cs of d # e # _ \<Rightarrow> d = CHR ''{'' \<and> is_name_start e | _ \<Rightarrow> False)"

definition scan_reference :: "string \<Rightarrow> (string \<times> string \<times> string) option" where
  "scan_reference cs =
     (let opened = brace_opened cs;
          body = (if opened then tl cs else cs)
      in case body of
           [] \<Rightarrow> None
         | b # _ \<Rightarrow>
             if \<not> is_name_start b then None
             else
               (let var = takeWhile is_word_char body;
                    rest = dropWhile is_word_char body;
                    closed = (case rest of r # _ \<Rightarrow> r = CHR ''}'' | [] \<Rightarrow> False)
                in Some ((if opened then ''{'' else []) @ var @ (if closed then ''}'' else []),
                         var,
                         if closed then tl rest else rest)))"

lemma scan_reference_shorter:
  assumes "scan_reference cs = Some (m, var, rest)"
  shows "length rest \<le> length cs"
proof -
  define body where "body = (if brace_opened cs then tl cs else cs)"
  have b: "length body \<le> length cs"
    by (simp add: body_def)
  have d: "length (dropWhile is_word_char body) \<le> length body"
    by (rule length_dropWhile_le)
  from assms have "rest = dropWhile is_word_char body \<or> rest = tl (dropWhile is_word_char body)"
    unfolding scan_reference_def Let_def body_def [symmetric]
    by (cases body) (auto split: if_splits)
  then show ?thesis
    using b d by auto
qed

text \<open>\<open>resolveEnvVarsInString\<close>: every reference whose variable is set is replaced by the
  value; the others stay as they are.\<close>

function resolveEnvVarsInString :: "env \<Rightarrow> string \<Rightarrow> string" where
  "resolveEnvVarsInString env [] = []"
| "resolveEnvVarsInString env (c # cs) =
     (if c = CHR ''$'' then
        (case scan_reference cs of
           None \<Rightarrow> c # resolveEnvVarsInString env cs
         | Some (m, var, rest) \<Rightarrow>
             (case env var of None \<Rightarrow> c # m | Some resolved \<Rightarrow> resolved)
               @ resolveEnvVarsInString env rest)
      else c # resolveEnvVarsInString env cs)"
  by pat_completeness auto
termination
  by (relation "measure (\<lambda>(env, s). length s)") (auto dest: scan_reference_shorter)

text \<open>\<open>Object.entries(labels).map(([k, v]) => `${k}=${v}`).join(',')\<close>.\<close>

definition label_selectors :: "jsval \<Rightarrow> string" where
  "label_selectors labels = join '','' (map (\<lambda>kv. fst kv @ ''='' @ js_String (snd kv)) (object_entries labels))"

record selector_args =
  kindArg :: string
  namespaceArg :: string
  selectorArg :: string
  contextArg :: string

definition buildSelectorArgs :: "env \<Rightarrow> jsval \<Rightarrow> error + selector_args" where
  "buildSelectorArgs env selector =
     (if nullish selector then Inl (TypeError ''Cannot read properties of undefined (reading 'kind')'')
      else case get_prop selector ''kind'' of
          JStr kind \<Rightarrow>
            (let metadata = get_prop selector ''metadata'' in
             if nullish metadata
             then Inl (TypeError ''Cannot read properties of undefined (reading 'namespace')'')
             else
               (let nsArg = (if truthy (get_prop metadata ''namespace'')
                             then ''-n '' @ js_String (get_prop metadata ''namespace'') else [])
                in case (if truthy (get_prop selector ''context'')
                         then (case get_prop selector ''context'' of
                                 JStr c \<Rightarrow> Inr (''--context='' @ resolveEnvVarsInString env c)
                               | _ \<Rightarrow> Inl (TypeError ''value.replace is not a function''))
                         else Inr []) of
                     Inl e \<Rightarrow> Inl e
                   | Inr ctxArg \<Rightarrow>
                       if truthy (get_prop metadata ''name'')
                       then Inr \<lparr>kindArg = toLowerCase kind, namespaceArg = nsArg,
                                 selectorArg = js_String (get_prop metadata ''name''), contextArg = ctxArg\<rparr>
                       else if truthy (get_prop metadata ''labels'')
                               \<and> object_entries (get_prop metadata ''labels'') \<noteq> []
                       then Inr \<lparr>kindArg = toLowerCase kind, namespaceArg = nsArg,
                                 selectorArg = ''-l '' @ label_selectors (get_prop metadata ''labels''),
                                 contextArg = ctxArg\<rparr>
                       else Inl (Error ''Either metadata.name or metadata.labels must be provided in Kubernetes selector'')))
        | _ \<Rightarrow> Inl (TypeError ''selector.kind.toLowerCase is not a function''))"

text \<open>\<open>getResourceDescription\<close>, on a selector that \<open>buildSelectorArgs\<close> accepted.\<close>

definition getResourceDescription :: "jsval \<Rightarrow> string" where
  "getResourceDescription selector =
     (let metadata = get_prop selector ''metadata'';
          kind = js_String (get_prop selector ''kind'');
          namespace = js_String (or_else (get_prop metadata ''namespace'') (JStr ''default''));
          shown = (if truthy (get_prop metadata ''name'') then js_String (get_prop metadata ''name'')
                   else if truthy (get_prop metadata ''labels'')
                   then ''with labels '' @ label_selectors (get_prop metadata ''labels'')
                   else ''unknown'')
      in kind @ ''/'' @ namespace @ ''/'' @ shown)"

section \<open>The wait poller\<close>

text \<open>\<open>v?.k\<close> and \<open>a ?? b\<close>.\<close>

definition opt_prop :: "jsval \<Rightarrow> string \<Rightarrow> jsval" where
  "opt_prop v k = (if nullish v then JUndefined else get_prop v k)"

definition coalesce :: "jsval \<Rightarrow> jsval \<Rightarrow> jsval" where
  "coalesce a b = (if nullish a then b else a)"

text \<open>\<open>a * 1000\<close> and \<open>a >= b\<close> on numbers that may be NaN.\<close>

definition times_1000 :: "int option \<Rightarrow> int option" where
  "times_1000 a = map_option (\<lambda>x. x * 1000) a"

definition num_ge :: "int option \<Rightarrow> int option \<Rightarrow> bool" where
  "num_ge a b = (case a of None \<Rightarrow> False | Some x \<Rightarrow> (case b of None \<Rightarrow> False | Some y \<Rightarrow> x \<ge> y))"

text \<open>
  What stays fixed while \<open>executeKubectlWait\<close> polls: the command, the path and the
  expectation of the wait, the \<open>setVars\<close> block, the deadline, the pause between two
  attempts, the bound on the retries, and the texts of the error messages.
\<close>

record polling =
  cmd :: string
  jsonPath :: jsval
  jsonPathExpectation :: jsval
  setVars :: jsval
  deadline :: "int option"
  interval_ms :: "int option"
  maxRetries :: jsval
  timeoutSeconds :: jsval
  resourceDescription :: string

text \<open>
  \<open>wait_attempt\<close> is the \<open>try\<close> block of the loop: \<open>True\<close> when the function returns
  \<open>true\<close> from it, \<open>False\<close> on every path that counts a retry (a \<open>continue\<close>, or an error
  caught by the \<open>catch\<close> of the loop).
\<close>

definition wait_attempt :: "'w sys \<Rightarrow> lib \<Rightarrow> polling \<Rightarrow> 'w state \<Rightarrow> bool \<times> 'w state" where
  "wait_attempt S L P s =
     (case s of (env, w) \<Rightarrow>
      case exec_sync S (cmd P) env w of
        (Inl e, w') \<Rightarrow> (False, (env, w'))
      | (Inr stdout, w') \<Rightarrow>
          if trim stdout = [] then (False, (env, w'))
          else
            (case json_parse L stdout of
               Inl e \<Rightarrow> (False, (env, w'))
             | Inr json \<Rightarrow>
                 if \<not> truthy json then (False, (env, w'))
                 else if truthy (jsonPath P) then
                   (case jsonpath L (jsonPath P) json of
                      Inl e \<Rightarrow> (False, (env, w'))
                    | Inr matches0 \<Rightarrow>
                        (case (if length matches0 = 0
                               then jsonpath L (JStr (''$'' @ js_String (jsonPath P))) json
                               else Inr matches0) of
                           Inl e \<Rightarrow> (False, (env, w'))
                         | Inr matches \<Rightarrow>
                             if length matches = 0 \<or> matches ! 0 = JNull \<or> matches ! 0 = JUndefined
                             then (False, (env, w'))
                             else
                               (let extractedValue = matches ! 0 in
                                if (if truthy (jsonPathExpectation P)
                                    then isl (compareValue L extractedValue (jsonPathExpectation P)
                                                (''JSONPath '' @ js_String (jsonPath P)))
                                    else extractedValue = JStr [])
                                then (False, (env, w'))
                                else if truthy (setVars P) then
                                  (case applySetVars L (setVars P)
                                          (JObj [(''extractedValue'', extractedValue)]) ''wait'' env of
                                     (Inl e, env') \<Rightarrow> (False, (env', w'))
                                   | (Inr u, env') \<Rightarrow> (True, (env', w')))
                                else (True, (env, w')))))
                 else (True, (env, w'))))"

definition retries_message :: "polling \<Rightarrow> string" where
  "retries_message P = ''Maximum retries ('' @ js_String (maxRetries P)
     @ '') exceeded while waiting for '' @ resourceDescription P"

text \<open>The arrow in the message is the character U+2192, three bytes in UTF-8.\<close>

definition timeout_message :: "polling \<Rightarrow> string" where
  "timeout_message P =
     ''Timed-out ('' @ js_String (timeoutSeconds P) @ ''s) waiting for '' @ resourceDescription P
       @ (if truthy (jsonPath P) then
            '' '' @ [CHR 0xE2, CHR 0x86, CHR 0x92] @ '' '' @ js_String (jsonPath P)
              @ (if truthy (jsonPathExpectation P) then
                   '' to ''
                     @ (if truthy (get_prop (jsonPathExpectation P) ''negate'')
                        then ''not '' @ js_String (get_prop (jsonPathExpectation P) ''comparator'')
                        else js_String (get_prop (jsonPathExpectation P) ''comparator''))
                     @ (if get_prop (jsonPathExpectation P) ''comparator'' \<noteq> JStr ''exists''
                        then '' '' @ tmpl (JSON_stringify (get_prop (jsonPathExpectation P) ''value''))
                        else [])
                 else [])
          else [])"

text \<open>
  The \<open>while\<close> loop of \<open>executeKubectlWait\<close>, from the state \<open>s\<close> with \<open>retryCount\<close>
  retries counted. Nothing in the code bounds the number of its turns when the clock
  does not advance, so the loop is a partial function: \<open>None\<close> when it does not return.
\<close>

partial_function (option) wait_loop ::
  "'w sys \<Rightarrow> lib \<Rightarrow> polling \<Rightarrow> int \<Rightarrow> 'w state \<Rightarrow> ((error + bool) \<times> 'w state) option" where
  "wait_loop S L P retryCount s =
     (if (case deadline P of None \<Rightarrow> False | Some d \<Rightarrow> now S (snd s) < d) then
        (if maxRetries P \<noteq> JUndefined \<and> num_ge (Some retryCount) (to_number L (maxRetries P))
         then Some (Inl (Error (retries_message P)), s)
         else
           (case wait_attempt S L P s of
              (satisfied, (env', w')) \<Rightarrow>
                if satisfied then Some (Inr True, (env', w'))
                else wait_loop S L P (retryCount + 1)
                       (env', sleep S (case interval_ms P of None \<Rightarrow> 0 | Some ms \<Rightarrow> ms) w')))
      else Some (Inl (Error (timeout_message P)), s))"

declare wait_loop.simps [code]

text \<open>The check of \<open>setVars\<close> before the polling starts: a rule \<open>{value: true}\<close> needs the
  \<open>jsonPath\<close> of the wait.\<close>

fun check_wait_rules :: "(string \<times> jsval) list \<Rightarrow> jsval \<Rightarrow> error + unit" where
  "check_wait_rules [] jp = Inr ()"
| "check_wait_rules ((varName, rule) # rest) jp =
     (if nullish rule then Inl (TypeError ''Cannot read properties of null (reading 'value')'')
      else if strict_eq (get_prop rule ''value'') (JBool True) \<and> \<not> truthy jp
      then Inl (Error (''setVars '' @ [CHR 0x22] @ varName @ [CHR 0x22] @ '': ''
             @ [CHR 0x22] @ ''value'' @ [CHR 0x22] @ '' extraction requires ''
             @ [CHR 0x22] @ ''jsonPath'' @ [CHR 0x22] @ '' to be defined in the wait config''))
      else check_wait_rules rest jp)"

text \<open>The constants of the polling, as \<open>executeKubectlWait\<close> computes them before its
  loop, in the state \<open>s\<close> and from the arguments \<open>args\<close> of the selector.\<close>

definition polling_of :: "'w sys \<Rightarrow> lib \<Rightarrow> jsval \<Rightarrow> jsval \<Rightarrow> 'w state \<Rightarrow> selector_args \<Rightarrow> polling" where
  "polling_of S L config setVarsBlock s args =
     (let timeout = coalesce (opt_prop (get_prop config ''polling'') ''timeoutSeconds'') (JNum 60);
          interval = coalesce (opt_prop (get_prop config ''polling'') ''intervalSeconds'') (JNum 2)
      in \<lparr>cmd = ''kubectl '' @ contextArg args @ '' '' @ namespaceArg args @ '' get ''
                 @ kindArg args @ '' '' @ selectorArg args @ '' -o json'',
           jsonPath = get_prop config ''jsonPath'',
           jsonPathExpectation = get_prop config ''jsonPathExpectation'',
           setVars = setVarsBlock,
           deadline = (case times_1000 (to_number L timeout) of
                         None \<Rightarrow> None
                       | Some t \<Rightarrow> Some (now S (snd s) + t)),
           interval_ms = times_1000 (to_number L interval),
           maxRetries = opt_prop (get_prop config ''polling'') ''maxRetries'',
           timeoutSeconds = timeout,
           resourceDescription = getResourceDescription (get_prop config ''target'')\<rparr>)"

definition executeKubectlWait ::
  "'w sys \<Rightarrow> lib \<Rightarrow> jsval \<Rightarrow> jsval \<Rightarrow> 'w state \<Rightarrow> ((error + bool) \<times> 'w state) option" where
  "executeKubectlWait S L config setVarsBlock s =
     (if \<not> truthy (get_prop config ''target'')
      then Some (Inl (Error ''target block required for kubectl-wait''), s)
      else
        (case (if truthy setVarsBlock
               then check_wait_rules (object_entries setVarsBlock) (get_prop config ''jsonPath'')
               else Inr ()) of
           Inl e \<Rightarrow> Some (Inl e, s)
         | Inr u \<Rightarrow>
             (case buildSelectorArgs (fst s) (get_prop config ''target'') of
                Inl e \<Rightarrow> Some (Inl e, s)
              | Inr args \<Rightarrow> wait_loop S L (polling_of S L config setVarsBlock s args) 0 s)))"

section \<open>The dispatcher\<close>

definition executeTest ::
  "'w sys \<Rightarrow> lib \<Rightarrow> string \<Rightarrow> 'w state \<Rightarrow> ((error + bool) \<times> 'w state) option" where
  "executeTest S L yamlDefinition s =
     (case yaml_load L yamlDefinition of
        Inl parseError \<Rightarrow>
          Some (Inl (Error (''Failed to parse test YAML definition: '' @ message parseError)), s)
      | Inr testConfig \<Rightarrow>
          if \<not> truthy testConfig \<or> typeof testConfig \<noteq> ''object''
          then Some (Inl (Error ''Invalid test definition: expected a YAML object''), s)
          else if truthy (get_prop testConfig ''http'')
          then Some (executeHttpTest S L testConfig s)
          else if truthy (get_prop testConfig ''command'')
          then Some (executeCommandTest S L testConfig s)
          else if truthy (get_prop testConfig ''wait'')
          then executeKubectlWait S L (get_prop testConfig ''wait'') (get_prop testConfig ''setVars'') s
          else if truthy (get_prop testConfig ''httpBodyComparison'')
          then Some (executeHttpBodyComparisonTest S testConfig s)
          else Some (Inl (Error ''Unknown test type: test definition must contain one of: http, command, wait, httpBodyComparison''), s))"

text \<open>The four kind keys, and how many of them a definition carries with a truthy
  value.\<close>

definition kind_keys :: "string list" where
  "kind_keys = [''http'', ''command'', ''wait'', ''httpBodyComparison'']"

definition kinds_present :: "jsval \<Rightarrow> string list" where
  "kinds_present testConfig = filter (\<lambda>k. truthy (get_prop testConfig k)) kind_keys"

section \<open>The batch runner\<close>

record TestOutcome =
  name :: jsval
  passed :: bool
  error :: "string option"
  durationMs :: int
  attempts :: int
  skipped :: bool

text \<open>The fields \<open>passed\<close>, \<open>failed\<close> and \<open>skipped\<close> of a \<open>RunResult\<close> are written
  \<open>passed_count\<close>, \<open>failed_count\<close> and \<open>skipped_count\<close>, apart from the fields of an
  outcome.\<close>

record RunResult =
  total :: nat
  passed_count :: nat
  failed_count :: nat
  skipped_count :: nat
  results :: "TestOutcome list"

definition parseTestDefinitions :: "lib \<Rightarrow> string \<Rightarrow> error + jsval list" where
  "parseTestDefinitions L yamlString =
     (case yaml_load L yamlString of
        Inl err \<Rightarrow> Inl (Error (''Failed to parse YAML: '' @ message err))
      | Inr parsed \<Rightarrow>
          if \<not> truthy parsed \<or> typeof parsed \<noteq> ''object''
          then Inl (Error ''Invalid YAML: expected an object or array of test definitions'')
          else
            (let definitions = (case parsed of JArr ds \<Rightarrow> ds | _ \<Rightarrow> [parsed])
             in if length definitions = 0
                then Inl (Error ''No test definitions found in YAML'')
                else Inr definitions))"

definition normaliseDefinition :: "jsval \<Rightarrow> jsval" where
  "normaliseDefinition d = d"

definition serialiseDefinition :: "lib \<Rightarrow> jsval \<Rightarrow> string" where
  "serialiseDefinition L d = yaml_dump L d"

text \<open>\<open>def.name || def.test_title || `test-${index + 1}`\<close>.\<close>

definition label_of :: "jsval \<Rightarrow> nat \<Rightarrow> jsval" where
  "label_of d index =
     or_else (get_prop d ''name'')
       (or_else (get_prop d ''test_title'') (JStr (''test-'' @ string_of_nat (index + 1))))"

text \<open>
  The \<open>for\<close> loop of \<open>runSingleTest\<close> from \<open>attempt\<close> on, and what follows it.
  \<open>started\<close> is the clock when the function was entered.
\<close>

function attempt_loop ::
  "'w sys \<Rightarrow> lib \<Rightarrow> string \<Rightarrow> jsval \<Rightarrow> int \<Rightarrow> int \<Rightarrow> int \<Rightarrow> error option \<Rightarrow> 'w state
     \<Rightarrow> (TestOutcome \<times> 'w state) option" where
  "attempt_loop S L yamlStr label started retries attempt lastError s =
     (if attempt \<le> retries then
        (case executeTest S L yamlStr s of
           None \<Rightarrow> None
         | Some (Inr b, s') \<Rightarrow>
             Some (\<lparr>name = label, passed = True, error = None,
                     durationMs = now S (snd s') - started, attempts = attempt + 1,
                     skipped = False\<rparr>, s')
         | Some (Inl err, (env', w')) \<Rightarrow>
             attempt_loop S L yamlStr label started retries (attempt + 1) (Some err)
               (env', if attempt < retries then sleep S 500 w' else w'))
      else
        Some (\<lparr>name = label, passed = False,
                error = Some (case lastError of None \<Rightarrow> ''Unknown error'' | Some e \<Rightarrow> message e),
                durationMs = now S (snd s) - started, attempts = retries + 1,
                skipped = False\<rparr>, s))"
  by pat_completeness auto
termination
  by (relation "measure (\<lambda>(S, L, yamlStr, label, started, retries, attempt, lastError, s).
        nat (retries + 1 - attempt))") auto

definition runSingleTest ::
  "'w sys \<Rightarrow> lib \<Rightarrow> jsval \<Rightarrow> nat \<Rightarrow> 'w state \<Rightarrow> ((error + TestOutcome) \<times> 'w state) option" where
  "runSingleTest S L d index s =
     (if nullish d
      then Some (Inl (TypeError ''Cannot read properties of null (reading 'retries')''), s)
      else
        (let retries = (case get_prop d ''retries'' of JNum r \<Rightarrow> r | _ \<Rightarrow> 0);
             label = label_of d index;
             yamlStr = serialiseDefinition L d;
             started = now S (snd s)
         in case attempt_loop S L yamlStr label started retries 0 None s of
              None \<Rightarrow> None
            | Some (outcome, s') \<Rightarrow> Some (Inr outcome, s')))"

text \<open>The inner loop of \<open>runTests\<close>: the outcomes of the definitions from index \<open>j\<close> on,
  all skipped.\<close>

function skip_from :: "jsval list \<Rightarrow> nat \<Rightarrow> error + TestOutcome list" where
  "skip_from definitions j =
     (if j < length definitions then
        (if nullish (definitions ! j)
         then Inl (TypeError ''Cannot read properties of null (reading 'name')'')
         else (case skip_from definitions (j + 1) of
                 Inl e \<Rightarrow> Inl e
               | Inr others \<Rightarrow>
                   Inr (\<lparr>name = label_of (definitions ! j) j, passed = False,
                          error = Some ''Skipped due to previous failure'',
                          durationMs = 0, attempts = 0, skipped = True\<rparr> # others)))
      else Inr [])"
  by pat_completeness auto
termination
  by (relation "measure (\<lambda>(definitions, j). length definitions - j)") auto

text \<open>The outer loop of \<open>runTests\<close> from index \<open>i\<close> on, \<open>done\<close> being the outcomes pushed
  so far.\<close>

function run_from ::
  "'w sys \<Rightarrow> lib \<Rightarrow> jsval list \<Rightarrow> nat \<Rightarrow> TestOutcome list \<Rightarrow> 'w state
     \<Rightarrow> ((error + TestOutcome list) \<times> 'w state) option" where
  "run_from S L definitions i finished s =
     (if i < length definitions then
        (case runSingleTest S L (normaliseDefinition (definitions ! i)) i s of
           None \<Rightarrow> None
         | Some (Inl e, s') \<Rightarrow> Some (Inl e, s')
         | Some (Inr result, s') \<Rightarrow>
             if \<not> passed result then
               (case skip_from definitions (i + 1) of
                  Inl e \<Rightarrow> Some (Inl e, s')
                | Inr others \<Rightarrow> Some (Inr (finished @ [result] @ others), s'))
             else run_from S L definitions (i + 1) (finished @ [result]) s')
      else Some (Inr finished, s))"
  by pat_completeness auto
termination
  by (relation "measure (\<lambda>(S, L, definitions, i, finished, s). length definitions - i)") auto

definition runTests ::
  "'w sys \<Rightarrow> lib \<Rightarrow> string \<Rightarrow> 'w state \<Rightarrow> ((error + RunResult) \<times> 'w state) option" where
  "runTests S L yamlString s =
     (case parseTestDefinitions L yamlString of
        Inl e \<Rightarrow> Some (Inl e, s)
      | Inr definitions \<Rightarrow>
          (case run_from S L definitions 0 [] s of
             None \<Rightarrow> None
           | Some (Inl e, s') \<Rightarrow> Some (Inl e, s')
           | Some (Inr rs, s') \<Rightarrow>
               Some (Inr \<lparr>total = length definitions,
                          passed_count = length (filter passed rs),
                          failed_count = length (filter (\<lambda>r. \<not> passed r \<and> \<not> skipped r) rs),
                          skipped_count = length (filter skipped rs),
                          results = rs\<rparr>, s')))"

declare attempt_loop.simps [simp del]
declare skip_from.simps [simp del]
declare run_from.simps [simp del]

section \<open>A small world instance\<close>

text \<open>
  A concrete world for the worked examples. The world is the clock, in milliseconds.
  Every request is answered \<open>200\<close> with the body \<open>{"id":42}\<close> after 5 ms, every command
  prints \<open>hello\<close> and exits with 0 after 5 ms, \<open>kubectl get\<close> prints a document after
  100 ms, and a pause of \<open>ms\<close> takes exactly \<open>ms\<close>. The parsers of the instance know a few
  documents by heart.
\<close>

definition sample_response :: jsval where
  "sample_response = JObj [(''statusCode'', JNum 200),
     (''headers'', JObj [(''content-type'', JStr ''application/json'')]),
     (''body'', JObj [(''id'', JNum 42)])]"

definition sample_result :: jsval where
  "sample_result = JObj [(''stdout'', JStr ''hello''), (''stderr'', JStr []),
     (''exitCode'', JNum 0), (''output'', JStr ''hello'')]"

definition sample_sys :: "int sys" where
  "sample_sys = \<lparr>
     http_exchange = (\<lambda>test env w. (Inr sample_response, w + 5)),
     run_command = (\<lambda>test env w. (Inr sample_result, w + 5)),
     exec_sync = (\<lambda>c env w. (Inr ''{deployment}'', w + 100)),
     compare_bodies = (\<lambda>test env w. (Inr True, w + 10)),
     now = (\<lambda>w. w),
     sleep = (\<lambda>ms w. w + ms)
   \<rparr>"

definition sample_deployment :: jsval where
  "sample_deployment = JObj [(''status'', JObj [(''readyReplicas'', JNum 3)])]"

text \<open>A world in which \<open>kubectl get\<close> fails after 100 ms, every time.\<close>

definition never_sys :: "int sys" where
  "never_sys = sample_sys \<lparr>exec_sync := (\<lambda>c env w. (Inl (Error ''Command failed: kubectl get''), w + 100))\<rparr>"

text \<open>Two waits for a deployment to have three ready replicas: one with a deadline of
  4 s and a pause of 1 s, one with the default deadline and pause and at most 2
  retries.\<close>

definition wait_config :: "jsval \<Rightarrow> jsval" where
  "wait_config pol = JObj [
     (''target'', JObj [(''kind'', JStr ''Deployment''),
        (''metadata'', JObj [(''namespace'', JStr ''default''), (''name'', JStr ''web'')])]),
     (''jsonPath'', JStr ''$.status.readyReplicas''),
     (''jsonPathExpectation'', JObj [(''comparator'', JStr ''equals''), (''value'', JNum 3)]),
     (''polling'', pol)]"

definition short_wait :: jsval where
  "short_wait = wait_config (JObj [(''timeoutSeconds'', JNum 4), (''intervalSeconds'', JNum 1)])"

definition bounded_wait :: jsval where
  "bounded_wait = wait_config (JObj [(''timeoutSeconds'', JNum 60), (''maxRetries'', JNum 2)])"

text \<open>Four definitions: a test with two kind keys, a wait with \<open>setVars\<close> and no
  \<open>expect\<close>, an HTTP test whose expectation fails, and a command test that passes.\<close>

definition two_kinds_test :: jsval where
  "two_kinds_test = JObj [(''name'', JStr ''both''),
     (''http'', JObj [(''url'', JStr ''http://svc''), (''method'', JStr ''GET''), (''path'', JStr ''/'')]),
     (''command'', JObj [(''command'', JStr ''echo hello'')]),
     (''source'', JObj [(''type'', JStr ''local'')]),
     (''expect'', JObj [(''statusCode'', JNum 200)])]"

definition wait_test :: jsval where
  "wait_test = JObj [(''name'', JStr ''rollout''),
     (''wait'', JObj [
        (''target'', JObj [(''kind'', JStr ''Deployment''),
           (''metadata'', JObj [(''namespace'', JStr ''default''), (''name'', JStr ''web'')])]),
        (''jsonPath'', JStr ''$.status.readyReplicas'')]),
     (''setVars'', JObj [(''REPLICAS'', JObj [(''value'', JBool True)])])]"

definition failing_test :: jsval where
  "failing_test = JObj [(''name'', JStr ''missing''),
     (''http'', JObj [(''url'', JStr ''http://svc''), (''method'', JStr ''GET''), (''path'', JStr ''/'')]),
     (''source'', JObj [(''type'', JStr ''local'')]),
     (''retries'', JNum 1),
     (''expect'', JObj [(''statusCode'', JNum 404)])]"

definition passing_test :: jsval where
  "passing_test = JObj [(''name'', JStr ''greet''),
     (''command'', JObj [(''command'', JStr ''echo hello'')]),
     (''source'', JObj [(''type'', JStr ''local'')]),
     (''expect'', JObj [(''exitCode'', JNum 0)])]"

definition unnamed_test :: jsval where
  "unnamed_test = JObj [
     (''command'', JObj [(''command'', JStr ''echo hello'')]),
     (''source'', JObj [(''type'', JStr ''local'')]),
     (''expect'', JObj [(''exitCode'', JNum 0)])]"

text \<open>The YAML codec of the instance: a definition is written as its name, and the
  text \<open>batch\<close> is the sequence of three definitions.\<close>

definition sample_yaml_load :: "string \<Rightarrow> error + jsval" where
  "sample_yaml_load s =
     (if s = ''both'' then Inr two_kinds_test
      else if s = ''rollout'' then Inr wait_test
      else if s = ''missing'' then Inr failing_test
      else if s = ''greet'' then Inr passing_test
      else if s = ''undefined'' then Inr unnamed_test
      else if s = ''batch'' then Inr (JArr [passing_test, failing_test, unnamed_test])
      else Inl (Error ''bad indentation''))"

definition world_lib :: lib where
  "world_lib = sample_lib \<lparr>
     yaml_load := sample_yaml_load,
     yaml_dump := (\<lambda>d. js_String (get_prop d ''name'')),
     json_parse := (\<lambda>s. if s = ''{deployment}'' then Inr sample_deployment
                          else Inl (SyntaxError ''Unexpected token''))
   \<rparr>"

text \<open>The outcomes of the first two definitions of the batch in the small world.\<close>

definition greet_outcome :: TestOutcome where
  "greet_outcome = \<lparr>name = JStr ''greet'', passed = True, error = None, durationMs = 5,
     attempts = 1, skipped = False\<rparr>"

definition missing_outcome :: TestOutcome where
  "missing_outcome = \<lparr>name = JStr ''missing'', passed = False,
     error = Some ''Status code mismatch: expected 404, got 200'', durationMs = 510,
     attempts = 2, skipped = False\<rparr>"

section \<open>Notions used to state the properties of the poller\<close>

text \<open>
  \<open>retry_state S L P s n\<close> is the state in which the loop of the poller starts its turn
  \<open>n\<close>, counted from 0, when it was entered in the state \<open>s\<close> and every earlier turn
  counted a retry: the state the attempt left, after the pause.
\<close>

fun retry_state :: "'w sys \<Rightarrow> lib \<Rightarrow> polling \<Rightarrow> 'w state \<Rightarrow> nat \<Rightarrow> 'w state" where
  "retry_state S L P s 0 = s"
| "retry_state S L P s (Suc n) =
     (case snd (wait_attempt S L P (retry_state S L P s n)) of
        (env', w') \<Rightarrow> (env', sleep S (case interval_ms P of None \<Rightarrow> 0 | Some ms \<Rightarrow> ms) w'))"

text \<open>\<open>not_yet S L P s d n\<close>: turn \<open>n\<close> starts before the deadline \<open>d\<close> and its attempt
  does not find the condition true.\<close>

definition not_yet :: "'w sys \<Rightarrow> lib \<Rightarrow> polling \<Rightarrow> 'w state \<Rightarrow> int \<Rightarrow> nat \<Rightarrow> bool" where
  "not_yet S L P s d n =
     (now S (snd (retry_state S L P s n)) < d \<and> \<not> fst (wait_attempt S L P (retry_state S L P s n)))"

text \<open>\<open>ceiling_hit L P n\<close>: the check of \<open>maxRetries\<close> at the start of turn \<open>n\<close>, when \<open>n\<close>
  retries have been counted.\<close>

definition ceiling_hit :: "lib \<Rightarrow> polling \<Rightarrow> nat \<Rightarrow> bool" where
  "ceiling_hit L P n =
     (maxRetries P \<noteq> JUndefined \<and> num_ge (Some (int n)) (to_number L (maxRetries P)))"

section \<open>Notions used to state the properties of the runner\<close>

text \<open>\<open>outcome_of ds j r\<close>: the outcome \<open>r\<close> carries the label of the definition at index
  \<open>j\<close>, and is not both skipped and passed.\<close>

definition outcome_of :: "jsval list \<Rightarrow> nat \<Rightarrow> TestOutcome \<Rightarrow> bool" where
  "outcome_of ds j r = (name r = label_of (ds ! j) j \<and> \<not> (skipped r \<and> passed r))"

text \<open>The outcome \<open>runTests\<close> records for the definition at index \<open>j\<close> when it skips it.\<close>

definition skipped_outcome :: "jsval list \<Rightarrow> nat \<Rightarrow> TestOutcome" where
  "skipped_outcome ds j = \<lparr>name = label_of (ds ! j) j, passed = False,
     error = Some ''Skipped due to previous failure'', durationMs = 0, attempts = 0,
     skipped = True\<rparr>"

section \<open>Properties of the deep comparison\<close>

declare deepCompare.simps(1) [simp del]

lemma lookup_distinct: "distinct (map fst kvs) \<Longrightarrow> (k, v) \<in> set kvs \<Longrightarrow> lookup kvs k = v"
  by (induction kvs) (auto simp: rev_image_eqI)

lemma deepCompare_elems_iff:
  "length xs = length ys \<Longrightarrow>
   deepCompare_elems xs ys = (\<forall>i<length xs. deepCompare (xs ! i) (ys ! i))"
proof (induction xs arbitrary: ys)
  case Nil
  then show ?case by simp
next
  case (Cons x xs)
  then obtain y ys' where ys: "ys = y # ys'" by (cases ys) auto
  with Cons.prems have len: "length xs = length ys'" by simp
  show ?case
    using Cons.IH [OF len] by (auto simp: ys less_Suc_eq_0_disj)
qed

lemma deepCompare_keys_iff:
  "deepCompare_keys rest kvs2 =
     (\<forall>kv\<in>set rest. fst kv \<in> set (map fst kvs2) \<and> deepCompare (snd kv) (lookup kvs2 (fst kv)))"
  by (induction rest) (force split: if_splits)+

lemma deepCompare_prim: "is_primitive a \<Longrightarrow> is_primitive b \<Longrightarrow> deepCompare a b = (a = b)"
  by (cases a; cases b) (simp_all add: deepCompare.simps(1))

lemma deepCompare_arr:
  "deepCompare (JArr xs) (JArr ys) =
     (length xs = length ys \<and> (\<forall>i<length xs. deepCompare (xs ! i) (ys ! i)))"
  by (auto simp: deepCompare.simps(1) deepCompare_elems_iff)

lemma keys_eq:
  assumes "distinct (map fst o1)" "distinct (map fst o2)" "length o1 = length o2"
    "set (map fst o1) \<subseteq> set (map fst o2)"
  shows "set (map fst o1) = set (map fst o2)"
proof -
  have "card (set (map fst o1)) = length o1" "card (set (map fst o2)) = length o2"
    using distinct_card [OF assms(1)] distinct_card [OF assms(2)] by simp_all
  then have "card (set (map fst o1)) = card (set (map fst o2))"
    using assms(3) by simp
  then show ?thesis using assms(4) by (simp add: card_subset_eq)
qed

lemma deepCompare_obj:
  assumes d1: "distinct (map fst o1)" and d2: "distinct (map fst o2)"
  shows "deepCompare (JObj o1) (JObj o2) =
     (set (map fst o1) = set (map fst o2) \<and>
      (\<forall>k\<in>set (map fst o1). deepCompare (lookup o1 k) (lookup o2 k)))"
proof -
  have vals: "(\<forall>kv\<in>set o1. P (fst kv) (snd kv)) = (\<forall>k\<in>set (map fst o1). P k (lookup o1 k))" for P
    using d1 by (auto simp: lookup_distinct)
  have len: "set (map fst o1) = set (map fst o2) \<Longrightarrow> length o1 = length o2"
    using d1 d2 by (metis distinct_card length_map)
  have "deepCompare (JObj o1) (JObj o2) =
      (length o1 = length o2 \<and> set (map fst o1) \<subseteq> set (map fst o2) \<and>
        (\<forall>kv\<in>set o1. deepCompare (snd kv) (lookup o2 (fst kv))))"
    by (auto simp: deepCompare.simps(1) deepCompare_keys_iff)
  also have "\<dots> = (length o1 = length o2 \<and> set (map fst o1) \<subseteq> set (map fst o2) \<and>
        (\<forall>k\<in>set (map fst o1). deepCompare (lookup o1 k) (lookup o2 k)))"
    using vals [of "\<lambda>k v. deepCompare v (lookup o2 k)"] by simp
  also have "\<dots> = (set (map fst o1) = set (map fst o2) \<and>
        (\<forall>k\<in>set (map fst o1). deepCompare (lookup o1 k) (lookup o2 k)))"
    using keys_eq [OF d1 d2] len by blast
  finally show ?thesis .
qed

lemma deepCompare_arr_other:
  "\<not> isArray v \<Longrightarrow> \<not> deepCompare (JArr xs) v \<and> \<not> deepCompare v (JArr xs)"
  by (cases v) (simp_all add: deepCompare.simps(1))

text \<open>
  The model answers \<open>False\<close> to \<open>===\<close> on two arrays or two mappings, where the source
  answers \<open>true\<close> when both are one reference. The result of \<open>deepCompare\<close> is the same
  either way: a well-formed value is deeply equal to itself.
\<close>

lemma deepCompare_refl: "wf_val a \<Longrightarrow> deepCompare a a"
proof (induction a)
  case (JArr xs)
  have "\<forall>i<length xs. deepCompare (xs ! i) (xs ! i)"
    using JArr by (auto simp: list_all_iff)
  then show ?case by (simp add: deepCompare_arr)
next
  case (JObj kvs)
  have d: "distinct (map fst kvs)" using JObj.prems by simp
  have "deepCompare (lookup kvs k) (lookup kvs k)" if "k \<in> set (map fst kvs)" for k
  proof -
    from that obtain v where kv: "(k, v) \<in> set kvs" by auto
    then have "wf_val v" using JObj.prems by (auto simp: list_all_iff)
    then have "deepCompare v v" using JObj.IH kv by fastforce
    then show ?thesis using lookup_distinct [OF d kv] by simp
  qed
  then show ?case using deepCompare_obj [OF d d] by blast
qed (simp_all add: deepCompare.simps(1))

lemma comparator_result_equals:
  "get_prop comparison ''comparator'' = JStr ''equals'' \<Longrightarrow>
   comparator_result L actual comparison = Inr (deepCompare actual (get_prop comparison ''value''))"
  by (simp add: comparator_result_def Let_def)

text \<open>
  C5. The \<open>equals\<close> comparator is \<open>deepCompare\<close>, and \<open>deepCompare\<close> is structural
  equality: two primitives are equal exactly when they are the same value; two arrays
  exactly when they have the same length and deeply equal entries at every index; two
  mappings (with distinct keys) exactly when they have the same key set and deeply equal
  values under every key; an array is never equal to a value that is not an array.
\<close>

theorem equals_is_deep_equality:
  "(get_prop comparison ''comparator'' = JStr ''equals'' \<longrightarrow>
      comparator_result L actual comparison =
        Inr (deepCompare actual (get_prop comparison ''value'')))
   \<and> (is_primitive a \<and> is_primitive b \<longrightarrow> deepCompare a b = (a = b))
   \<and> deepCompare (JArr xs) (JArr ys) =
        (length xs = length ys \<and> (\<forall>i<length xs. deepCompare (xs ! i) (ys ! i)))
   \<and> (distinct (map fst o1) \<and> distinct (map fst o2) \<longrightarrow>
        deepCompare (JObj o1) (JObj o2) =
          (set (map fst o1) = set (map fst o2) \<and>
           (\<forall>k\<in>set (map fst o1). deepCompare (lookup o1 k) (lookup o2 k))))
   \<and> (\<not> isArray v \<longrightarrow> \<not> deepCompare (JArr xs) v \<and> \<not> deepCompare v (JArr xs))"
  using comparator_result_equals deepCompare_prim deepCompare_arr deepCompare_obj
    deepCompare_arr_other by blast

theorem equals_is_deep_equality_witness:
  "comparator_result sample_lib (JObj [(''a'', JNum 1), (''b'', JArr [JNull])])
      (comparison_of ''equals'' (JObj [(''b'', JArr [JNull]), (''a'', JNum 1)]) False) = Inr True
   \<and> deepCompare (JStr ''x'') (JStr ''x'')
   \<and> \<not> deepCompare (JNum 1) (JStr ''1'')
   \<and> \<not> deepCompare (JArr [JNum 1, JNum 2]) (JArr [JNum 1])
   \<and> deepCompare (JObj [(''a'', JNum 1), (''b'', JArr [JNull])])
        (JObj [(''b'', JArr [JNull]), (''a'', JNum 1)])
   \<and> \<not> deepCompare (JArr []) (JObj [])"
  using equals_is_deep_equality [of "comparison_of ''equals'' (JObj [(''b'', JArr [JNull]), (''a'', JNum 1)]) False"
      sample_lib "JObj [(''a'', JNum 1), (''b'', JArr [JNull])]"
      "JStr ''x''" "JStr ''x''" "[JNull]" "[JNull]"
      "[(''a'', JNum 1), (''b'', JArr [JNull])]" "[(''b'', JArr [JNull]), (''a'', JNum 1)]" "JObj []"]
    equals_is_deep_equality [of "comparison_of ''equals'' JNull False"
      sample_lib JNull "JNum 1" "JStr ''1''" "[JNum 1, JNum 2]" "[JNum 1]" "[]" "[]" JNull]
    equals_is_deep_equality [of "comparison_of ''equals'' JNull False"
      sample_lib JNull JNull JNull "[]" "[]" "[]" "[]" "JObj []"]
  by (simp add: comparison_of_def deepCompare.simps(1))

section \<open>Properties of the comparator engine\<close>

lemma supported_cases:
  assumes "c \<in> set supported_comparators"
  shows "c = ''exists'' \<or> c = ''equals'' \<or> c = ''contains'' \<or> c = ''matches''
    \<or> c = ''greaterThan'' \<or> c = ''lessThan''"
  using assms by (simp add: supported_comparators_def)

lemma as_text_defined: "actual \<noteq> JUndefined \<Longrightarrow> \<exists>s. as_text actual = Some s"
  by (cases actual) (simp_all add: JSON_stringify_def)

lemma comparator_result_defined:
  assumes "c \<in> set supported_comparators"
    and "get_prop comparison ''comparator'' = JStr c"
    and "c = ''contains'' \<longrightarrow> actual \<noteq> JUndefined"
    and "c = ''matches'' \<longrightarrow>
           \<not> isl (regexp_test L (regexp_source (get_prop comparison ''value'')) (tmpl (as_text actual)))"
  shows "\<exists>raw. comparator_result L actual comparison = Inr raw"
proof -
  consider "c = ''exists''" | "c = ''equals''" | "c = ''contains''" | "c = ''matches''"
    | "c = ''greaterThan''" | "c = ''lessThan''"
    using supported_cases [OF assms(1)] by (elim disjE) simp_all
  then show ?thesis
  proof cases
    case 1
    with assms(2) show ?thesis by (simp add: comparator_result_def Let_def)
  next
    case 2
    with assms(2) show ?thesis by (simp add: comparator_result_def Let_def)
  next
    case 3
    then obtain s where "as_text actual = Some s" using assms(3) as_text_defined by blast
    with 3 assms(2) show ?thesis by (simp add: comparator_result_def Let_def)
  next
    case 4
    with assms(4) obtain m where
      "regexp_test L (regexp_source (get_prop comparison ''value'')) (tmpl (as_text actual)) = Inr m"
      by (cases "regexp_test L (regexp_source (get_prop comparison ''value'')) (tmpl (as_text actual))") auto
    with 4 assms(2) show ?thesis by (simp add: comparator_result_def Let_def)
  next
    case 5
    with assms(2) show ?thesis by (simp add: comparator_result_def Let_def)
  next
    case 6
    with assms(2) show ?thesis by (simp add: comparator_result_def Let_def)
  qed
qed

lemma compareValue_of_raw:
  assumes "\<not> nullish comparison" and "comparator_result L actual comparison = Inr raw"
  shows "compareValue L actual comparison description =
     (if (if truthy (get_prop comparison ''negate'') then \<not> raw else raw) then Inr ()
      else Inl (Error (failure_message description comparison (as_text actual))))"
  using assms by (simp add: compareValue_def Let_def)

lemma failure_message_shape:
  assumes "get_prop comparison ''comparator'' = JStr c"
  shows "failure_message description comparison shown =
     description @ '' comparison failed: expected to ''
       @ (if truthy (get_prop comparison ''negate'') then ''not '' else []) @ c
       @ (if c = ''exists'' then [] else '' '' @ tmpl (JSON_stringify (get_prop comparison ''value'')))
       @ '', found '' @ tmpl shown"
  using assms by (simp add: failure_message_def Let_def)

text \<open>
  C3, as amended. For every supported comparator, every polarity and every actual
  value on which the comparator itself can be evaluated (the actual value is not
  \<open>undefined\<close> under \<open>contains\<close>, and the pattern compiles under \<open>matches\<close>), the
  comparator yields a boolean \<open>raw\<close>, and \<open>compareValue\<close> raises exactly when
  \<open>negate ? !raw : raw\<close> is false. The error it then raises carries the message
  \<open>D comparison failed: expected to [not ]C[ V], found A\<close>: the comparator \<open>C\<close>, with
  \<open>not\<close> before it when negated, the serialized expected value \<open>V\<close> unless the
  comparator is \<open>exists\<close>, and the text \<open>A\<close> of the actual value.
\<close>

theorem compareValue_raises_iff_final_false:
  assumes "c \<in> set supported_comparators"
    and "\<not> nullish comparison"
    and "get_prop comparison ''comparator'' = JStr c"
    and "c = ''contains'' \<longrightarrow> actual \<noteq> JUndefined"
    and "c = ''matches'' \<longrightarrow>
           \<not> isl (regexp_test L (regexp_source (get_prop comparison ''value'')) (tmpl (as_text actual)))"
  shows "\<exists>raw. comparator_result L actual comparison = Inr raw
     \<and> (isl (compareValue L actual comparison description)
          = (\<not> (if truthy (get_prop comparison ''negate'') then \<not> raw else raw)))
     \<and> (isl (compareValue L actual comparison description) \<longrightarrow>
          compareValue L actual comparison description =
            Inl (Error (description @ '' comparison failed: expected to ''
              @ (if truthy (get_prop comparison ''negate'') then ''not '' else []) @ c
              @ (if c = ''exists'' then []
                 else '' '' @ tmpl (JSON_stringify (get_prop comparison ''value'')))
              @ '', found '' @ tmpl (as_text actual))))"
proof -
  obtain raw where raw: "comparator_result L actual comparison = Inr raw"
    using comparator_result_defined [OF assms(1,3,4,5)] by blast
  have cv: "compareValue L actual comparison description =
     (if (if truthy (get_prop comparison ''negate'') then \<not> raw else raw) then Inr ()
      else Inl (Error (failure_message description comparison (as_text actual))))"
    by (rule compareValue_of_raw [OF assms(2) raw])
  show ?thesis
    using raw cv failure_message_shape [OF assms(3), of description "as_text actual"]
    by (intro exI [of _ raw]) (simp split: if_splits)
qed

theorem compareValue_raises_iff_final_false_witness:
  \<open>compareValue sample_lib (JNum 5) (comparison_of ''lessThan'' (JNum 10) False) ''Value'' = Inr ()
   \<and> compareValue sample_lib (JNum 10) (comparison_of ''lessThan'' (JNum 3) False) ''Value''
       = Inl (Error ''Value comparison failed: expected to lessThan 3, found 10'')
   \<and> compareValue sample_lib (JStr ''Hello World'') (comparison_of ''contains'' (JStr ''World'') True) ''Value''
       = Inl (Error ''Value comparison failed: expected to not contains "World", found Hello World'')
   \<and> compareValue sample_lib JNull (comparison_of ''exists'' JUndefined False) ''Value''
       = Inl (Error ''Value comparison failed: expected to exists, found null'')\<close>
proof -
  have sup: "''lessThan'' \<in> set supported_comparators" "''contains'' \<in> set supported_comparators"
    "''exists'' \<in> set supported_comparators"
    by (simp_all add: supported_comparators_def)
  note ev = compareValue_def failure_message_def comparison_of_def comparator_result_def num_gt_def sample_lib_def JSON_stringify_def
    tmpl_def string_of_int_def string_of_nat.simps digit_char_def json_quote_def
    json_escape_char_def
  show ?thesis
    using compareValue_raises_iff_final_false [OF sup(1), of "comparison_of ''lessThan'' (JNum 10) False"
        "JNum 5" sample_lib "''Value''"]
      compareValue_raises_iff_final_false [OF sup(1), of "comparison_of ''lessThan'' (JNum 3) False"
        "JNum 10" sample_lib "''Value''"]
      compareValue_raises_iff_final_false [OF sup(2), of "comparison_of ''contains'' (JStr ''World'') True"
        "JStr ''Hello World''" sample_lib "''Value''"]
      compareValue_raises_iff_final_false [OF sup(3), of "comparison_of ''exists'' JUndefined False"
        JNull sample_lib "''Value''"]
    by (simp add: ev)
qed

text \<open>
  C3, the claim as stated fails. If \<open>compareValue\<close> raised exactly when
  \<open>negate ? !raw : raw\<close> is false, then for a fixed comparator, expected value and
  actual value it would raise under exactly one of the two polarities. Under \<open>matches\<close>
  with the expected value \<open>(\<close>, a pattern that does not compile, it raises under
  both: the SyntaxError of \<open>new RegExp\<close> leaves the function before \<open>negate\<close> is
  looked at. So it does under \<open>contains\<close> on the actual value \<open>undefined\<close>, whose text
  is \<open>undefined\<close>: reading \<open>includes\<close> of it is a TypeError.
\<close>

theorem compareValue_raises_under_both_polarities:
  "isl (compareValue sample_lib (JStr ''abc'') (comparison_of ''matches'' (JStr ''('') False) ''Value'')
   \<and> isl (compareValue sample_lib (JStr ''abc'') (comparison_of ''matches'' (JStr ''('') True) ''Value'')
   \<and> isl (compareValue sample_lib JUndefined (comparison_of ''contains'' (JStr ''x'') False) ''Value'')
   \<and> isl (compareValue sample_lib JUndefined (comparison_of ''contains'' (JStr ''x'') True) ''Value'')"
  by (simp add: compareValue_def comparator_result_def comparison_of_def JSON_stringify_def
      regexp_source_def sample_lib_def sample_regexp_test_def)

section \<open>Properties of value extraction\<close>

lemma apply_rules_append:
  "apply_rules L (pre @ rest) data testType env =
     (case apply_rules L pre data testType env of
        (Inl e, env1) \<Rightarrow> (Inl e, env1)
      | (Inr u, env1) \<Rightarrow> apply_rules L rest data testType env1)"
proof (induction L pre data testType env rule: apply_rules.induct)
  case (1 L data testType env)
  then show ?case by simp
next
  case (2 L varName rule pre data testType env)
  show ?case
  proof (cases "extract_value L varName rule data testType")
    case (Inl e)
    then show ?thesis by simp
  next
    case (Inr v)
    show ?thesis
    proof (cases "v = JUndefined \<or> v = JNull")
      case True
      with Inr show ?thesis by auto
    next
      case False
      with Inr 2 [OF Inr False refl] show ?thesis by (simp add: Let_def fun_upd_def)
    qed
  qed
qed

lemma apply_rules_raise:
  assumes "apply_rules L pre data testType env = (Inr (), env1)"
    and "extract_value L varName rule data testType = Inl e"
  shows "apply_rules L (pre @ (varName, rule) # rest) data testType env = (Inl e, env1)"
  using assms by (simp add: apply_rules_append)

lemma applySetVars_mapping:
  "applySetVars L (JObj kvs) data testType env = apply_rules L kvs data testType env"
  by (simp add: applySetVars_def)

lemma single_rule_props:
  "get_prop (JObj [(src, v)]) k = (if src = k then v else JUndefined)"
  by simp

lemma extract_value_invalid_source:
  assumes "src \<in> set extraction_sources"
    and "selects src v"
    and "kind \<in> set [''http'', ''command'', ''wait'']"
    and "kind \<notin> set (valid_kinds src)"
  shows "extract_value L varName (JObj [(src, v)]) data kind
     = Inl (Error (invalid_source_message varName src kind))"
proof -
  consider "src = ''jsonPath''" | "src = ''header''" | "src = ''statusCode''" | "src = ''body''"
    | "src = ''stdout''" | "src = ''stderr''" | "src = ''exitCode''" | "src = ''value''"
    | "src = ''regex''"
    using assms(1) by (simp add: extraction_sources_def) (elim disjE, simp_all)
  then show ?thesis
  proof cases
    case 1
    with assms(2,3,4) show ?thesis
      by (simp add: extract_value_def invalid_source_message_def valid_kinds_def selects_def)
  next
    case 2
    with assms(2,3,4) show ?thesis
      by (simp add: extract_value_def invalid_source_message_def valid_kinds_def selects_def)
  next
    case 3
    with assms(2,3,4) show ?thesis
      by (simp add: extract_value_def invalid_source_message_def valid_kinds_def selects_def)
  next
    case 4
    with assms(2,3,4) show ?thesis
      by (simp add: extract_value_def invalid_source_message_def valid_kinds_def selects_def)
  next
    case 5
    with assms(2,3,4) show ?thesis
      by (simp add: extract_value_def invalid_source_message_def valid_kinds_def selects_def)
  next
    case 6
    with assms(2,3,4) show ?thesis
      by (simp add: extract_value_def invalid_source_message_def valid_kinds_def selects_def)
  next
    case 7
    with assms(2,3,4) show ?thesis
      by (simp add: extract_value_def invalid_source_message_def valid_kinds_def selects_def)
  next
    case 8
    with assms(2,3,4) show ?thesis
      by (simp add: extract_value_def invalid_source_message_def valid_kinds_def selects_def)
  next
    case 9
    with assms(2,3,4) show ?thesis
      by (simp add: extract_value_def invalid_source_message_def valid_kinds_def selects_def)
  qed
qed

lemma extract_value_header_command:
  "\<exists>e. extract_value L varName (JObj [(''header'', JStr hname)]) data ''command'' = Inl e
     \<and> (hname \<noteq> [] \<longrightarrow> e = Error (invalid_source_message varName ''header'' ''command''))"
  by (simp add: extract_value_def invalid_source_message_def valid_kinds_def)

text \<open>
  C6. A rule \<open>{header: name}\<close> applied to the result of a command test raises, for
  every header name, and publishes nothing: the store is what the earlier rules of the
  block left. For a name that is not empty the error is the invalid-source error
  \<open>setVars "V": "header" source is only valid for http tests\<close>. In general, a rule with
  one source, applied to a kind of test (http, command or wait) the source is not valid
  for, raises the invalid-source error that names the variable and the source, and
  publishes nothing.
\<close>

theorem invalid_source_for_kind_is_fatal:
  "(apply_rules L pre data ''command'' env = (Inr (), env1) \<longrightarrow>
      (\<exists>e. applySetVars L (JObj (pre @ (varName, JObj [(''header'', JStr hname)]) # rest))
              data ''command'' env = (Inl e, env1)
         \<and> (hname \<noteq> [] \<longrightarrow> e = Error (invalid_source_message varName ''header'' ''command''))))
   \<and> (apply_rules L pre data kind env = (Inr (), env1)
        \<and> src \<in> set extraction_sources \<and> selects src v
        \<and> kind \<in> set [''http'', ''command'', ''wait''] \<and> kind \<notin> set (valid_kinds src) \<longrightarrow>
      applySetVars L (JObj (pre @ (varName, JObj [(src, v)]) # rest)) data kind env
        = (Inl (Error (invalid_source_message varName src kind)), env1))"
proof (intro conjI impI)
  assume pre: "apply_rules L pre data ''command'' env = (Inr (), env1)"
  obtain e where e: "extract_value L varName (JObj [(''header'', JStr hname)]) data ''command'' = Inl e"
    and msg: "hname \<noteq> [] \<longrightarrow> e = Error (invalid_source_message varName ''header'' ''command'')"
    using extract_value_header_command [of L varName hname data] by (elim exE conjE)
  have "applySetVars L (JObj (pre @ (varName, JObj [(''header'', JStr hname)]) # rest))
          data ''command'' env = (Inl e, env1)"
    unfolding applySetVars_mapping by (rule apply_rules_raise [OF pre e])
  with msg show "\<exists>e. applySetVars L (JObj (pre @ (varName, JObj [(''header'', JStr hname)]) # rest))
              data ''command'' env = (Inl e, env1)
         \<and> (hname \<noteq> [] \<longrightarrow> e = Error (invalid_source_message varName ''header'' ''command''))"
    by (intro exI [of _ e] conjI)
next
  assume a: "apply_rules L pre data kind env = (Inr (), env1)
        \<and> src \<in> set extraction_sources \<and> selects src v
        \<and> kind \<in> set [''http'', ''command'', ''wait''] \<and> kind \<notin> set (valid_kinds src)"
  then have e: "extract_value L varName (JObj [(src, v)]) data kind
     = Inl (Error (invalid_source_message varName src kind))"
    by (intro extract_value_invalid_source) (elim conjE, assumption)+
  from a have pre: "apply_rules L pre data kind env = (Inr (), env1)" by (elim conjE)
  show "applySetVars L (JObj (pre @ (varName, JObj [(src, v)]) # rest)) data kind env
        = (Inl (Error (invalid_source_message varName src kind)), env1)"
    unfolding applySetVars_mapping by (rule apply_rules_raise [OF pre e])
qed

theorem invalid_source_for_kind_is_fatal_witness:
  \<open>applySetVars sample_lib (JObj [(''VAL'', JObj [(''header'', JStr ''X-Request-Id'')])])
      (JObj [(''stdout'', JStr ''out''), (''stderr'', JStr []), (''exitCode'', JNum 0)])
      ''command'' Map.empty
     = (Inl (Error ''setVars "VAL": "header" source is only valid for http tests''), Map.empty)
   \<and> applySetVars sample_lib (JObj [(''VAL'', JObj [(''jsonPath'', JStr ''$.key'')])])
      (JObj [(''extractedValue'', JStr ''test'')])
      ''wait'' Map.empty
     = (Inl (Error ''setVars "VAL": "jsonPath" source is not valid for wait tests''), Map.empty)\<close>
proof -
  have src: "''jsonPath'' \<in> set extraction_sources"
    by (simp add: extraction_sources_def)
  have m1: \<open>invalid_source_message ''VAL'' ''header'' ''command''
      = ''setVars "VAL": "header" source is only valid for http tests''\<close>
    by (simp add: invalid_source_message_def valid_kinds_def)
  have m2: \<open>invalid_source_message ''VAL'' ''jsonPath'' ''wait''
      = ''setVars "VAL": "jsonPath" source is not valid for wait tests''\<close>
    by (simp add: invalid_source_message_def valid_kinds_def)
  show ?thesis
    using invalid_source_for_kind_is_fatal [of sample_lib "[]"
        "JObj [(''stdout'', JStr ''out''), (''stderr'', JStr []), (''exitCode'', JNum 0)]"
        Map.empty Map.empty "''VAL''" "''X-Request-Id''" "[]" "''command''" "''header''" "JStr ''X-Request-Id''"]
      invalid_source_for_kind_is_fatal [of sample_lib "[]"
        "JObj [(''extractedValue'', JStr ''test'')]"
        Map.empty Map.empty "''VAL''" "''X-Request-Id''" "[]" "''wait''" "''jsonPath''" "JStr ''$.key''"]
      src
    by (simp add: m1 m2 selects_def valid_kinds_def)
qed







section \<open>Word-boundary matching\<close>

lemma comparator_result_contains:
  assumes "get_prop comparison ''comparator'' = JStr ''contains''"
    and "as_text actual = Some s"
  shows "comparator_result L actual comparison
     = Inr (str_includes s (js_String (get_prop comparison ''value'')))"
  using assms by (simp add: comparator_result_def)

lemma validateBodyContains_matchword:
  assumes "has_key ''matchword'' (JObj kvs)" and "truthy (get_prop (JObj kvs) ''matchword'')"
    and "get_prop (JObj kvs) ''value'' = JStr v" and "v \<noteq> []" and "\<not> starts_with v ''$''"
    and "regexp_test L ([CHR 0x5C, CHR ''b''] @ v @ [CHR 0x5C, CHR ''b'']) (tmpl rawBody) = Inr m"
  shows "isl (validateBodyContains L env rawBody (JObj kvs))
     = (if truthy (get_prop (JObj kvs) ''negate'') then m else \<not> m)"
proof -
  have neg: "(has_key ''negate'' (JObj kvs) \<and> truthy (get_prop (JObj kvs) ''negate''))
     = truthy (get_prop (JObj kvs) ''negate'')"
    by (induction kvs) auto
  show ?thesis
    using assms neg
    by (simp add: validateBodyContains_def or_else_def tmpl_def Let_def del: has_key.simps get_prop.simps)
qed

text \<open>
  C4, as amended. The comparator engine does not look at \<open>matchword\<close>: under
  \<open>contains\<close> its raw result is the plain substring test of \<open>String(value)\<close> in the text
  of the actual value, whatever else the comparison carries. The flag takes effect in the
  \<open>bodyContains\<close> expectation of an HTTP test: for an item with a truthy
  \<open>matchword\<close> and a needle \<open>v\<close> (a non-empty string that does not start with \<open>$\<close>), the
  pattern \<open>\bv\b\<close> is tested against the text of the body, and the item fails exactly
  when \<open>negate ? match : !match\<close>.
\<close>

theorem matchword_only_in_bodyContains:
  "(get_prop comparison ''comparator'' = JStr ''contains'' \<and> as_text actual = Some s \<longrightarrow>
      comparator_result L actual comparison
        = Inr (str_includes s (js_String (get_prop comparison ''value''))))
   \<and> (has_key ''matchword'' (JObj kvs) \<and> truthy (get_prop (JObj kvs) ''matchword'')
        \<and> get_prop (JObj kvs) ''value'' = JStr v \<and> v \<noteq> [] \<and> \<not> starts_with v ''$''
        \<and> regexp_test L ([CHR 0x5C, CHR ''b''] @ v @ [CHR 0x5C, CHR ''b'']) (tmpl rawBody) = Inr m \<longrightarrow>
      isl (validateBodyContains L env rawBody (JObj kvs))
        = (if truthy (get_prop (JObj kvs) ''negate'') then m else \<not> m))"
proof (intro conjI impI)
  assume "get_prop comparison ''comparator'' = JStr ''contains'' \<and> as_text actual = Some s"
  then show "comparator_result L actual comparison
        = Inr (str_includes s (js_String (get_prop comparison ''value'')))"
    by (intro comparator_result_contains) (elim conjE, assumption)+
next
  assume "has_key ''matchword'' (JObj kvs) \<and> truthy (get_prop (JObj kvs) ''matchword'')
        \<and> get_prop (JObj kvs) ''value'' = JStr v \<and> v \<noteq> [] \<and> \<not> starts_with v ''$''
        \<and> regexp_test L ([CHR 0x5C, CHR ''b''] @ v @ [CHR 0x5C, CHR ''b'']) (tmpl rawBody) = Inr m"
  then show "isl (validateBodyContains L env rawBody (JObj kvs))
        = (if truthy (get_prop (JObj kvs) ''negate'') then m else \<not> m)"
    by (intro validateBodyContains_matchword) (elim conjE, assumption)+
qed

theorem matchword_only_in_bodyContains_witness:
  "comparator_result sample_lib (JStr ''books'')
      (JObj [(''comparator'', JStr ''contains''), (''value'', JStr ''ok''), (''matchword'', JBool True)])
     = Inr True
   \<and> isl (validateBodyContains sample_lib Map.empty (Some ''books'')
        (JObj [(''value'', JStr ''ok''), (''matchword'', JBool True)]))
   \<and> \<not> isl (validateBodyContains sample_lib Map.empty (Some ''it is ok now'')
        (JObj [(''value'', JStr ''ok''), (''matchword'', JBool True)]))"
proof -
  have r1: "regexp_test sample_lib ([CHR 0x5C, CHR ''b''] @ ''ok'' @ [CHR 0x5C, CHR ''b'']) (tmpl (Some ''books''))
     = Inr False"
    by (simp add: sample_lib_def sample_regexp_test_def tmpl_def is_word_char_def)
  have r2: "regexp_test sample_lib ([CHR 0x5C, CHR ''b''] @ ''ok'' @ [CHR 0x5C, CHR ''b'']) (tmpl (Some ''it is ok now''))
     = Inr True"
    by (simp add: sample_lib_def sample_regexp_test_def tmpl_def is_word_char_def)
  show ?thesis
    using matchword_only_in_bodyContains [of
        "JObj [(''comparator'', JStr ''contains''), (''value'', JStr ''ok''), (''matchword'', JBool True)]"
        "JStr ''books''" "''books''" sample_lib
        "[(''value'', JStr ''ok''), (''matchword'', JBool True)]" "''ok''" "Some ''books''" False Map.empty]
      matchword_only_in_bodyContains [of
        "JObj [(''comparator'', JStr ''contains''), (''value'', JStr ''ok''), (''matchword'', JBool True)]"
        "JStr ''books''" "''books''" sample_lib
        "[(''value'', JStr ''ok''), (''matchword'', JBool True)]" "''ok''" "Some ''it is ok now''" True Map.empty]
      r1 r2
    by simp
qed

text \<open>
  C4, the claim as stated fails. The word \<open>ok\<close> does not occur as a whole word in
  \<open>books\<close>, so the pattern \<open>\bok\b\<close> does not match it; the comparator engine, given
  \<open>contains\<close> with \<open>matchword: true\<close>, passes all the same, because \<open>books\<close> includes
  \<open>ok\<close>.
\<close>

theorem compareValue_ignores_matchword:
  "compareValue sample_lib (JStr ''books'')
      (JObj [(''comparator'', JStr ''contains''), (''value'', JStr ''ok''), (''matchword'', JBool True)])
      ''Value'' = Inr ()
   \<and> regexp_test sample_lib [CHR 0x5C, CHR ''b'', CHR ''o'', CHR ''k'', CHR 0x5C, CHR ''b''] ''books''
       = Inr False"
  by (simp add: compareValue_def comparator_result_def sample_lib_def sample_regexp_test_def
      is_word_char_def)

section \<open>Properties of the dispatcher\<close>

lemma kinds_present_Nil:
  "(kinds_present c = []) =
     (\<not> truthy (get_prop c ''http'') \<and> \<not> truthy (get_prop c ''command'')
      \<and> \<not> truthy (get_prop c ''wait'') \<and> \<not> truthy (get_prop c ''httpBodyComparison''))"
  by (simp add: kinds_present_def kind_keys_def)

lemma kinds_present_hd:
  "kinds_present c \<noteq> [] \<Longrightarrow>
   hd (kinds_present c) =
     (if truthy (get_prop c ''http'') then ''http''
      else if truthy (get_prop c ''command'') then ''command''
      else if truthy (get_prop c ''wait'') then ''wait''
      else ''httpBodyComparison'')"
  by (simp add: kinds_present_def kind_keys_def split: if_splits)

text \<open>
  C2, as amended. For every parsed definition given to the dispatcher (a value the
  parser returned that is an object), the dispatcher raises the fatal error
  \<open>Unknown test type\<close> when none of the four kind keys is present with a truthy value.
  When one or more are present it raises no error of its own: it hands the definition
  to the executor of the first present kind, in the order \<open>http\<close>, \<open>command\<close>, \<open>wait\<close>,
  \<open>httpBodyComparison\<close>, and returns what that executor returns.
\<close>

theorem dispatcher_takes_first_present_kind:
  assumes "yaml_load L yamlDefinition = Inr c"
    and "truthy c" and "typeof c = ''object''"
  shows "(kinds_present c = [] \<longrightarrow>
            executeTest S L yamlDefinition s =
              Some (Inl (Error ''Unknown test type: test definition must contain one of: http, command, wait, httpBodyComparison''), s))
       \<and> (kinds_present c \<noteq> [] \<longrightarrow>
            executeTest S L yamlDefinition s =
              (if hd (kinds_present c) = ''http'' then Some (executeHttpTest S L c s)
               else if hd (kinds_present c) = ''command'' then Some (executeCommandTest S L c s)
               else if hd (kinds_present c) = ''wait''
                 then executeKubectlWait S L (get_prop c ''wait'') (get_prop c ''setVars'') s
               else Some (executeHttpBodyComparisonTest S c s)))"
proof (intro conjI impI)
  assume "kinds_present c = []"
  then show "executeTest S L yamlDefinition s =
      Some (Inl (Error ''Unknown test type: test definition must contain one of: http, command, wait, httpBodyComparison''), s)"
    using assms by (simp add: kinds_present_Nil executeTest_def)
next
  assume ne: "kinds_present c \<noteq> []"
  then have some: "truthy (get_prop c ''http'') \<or> truthy (get_prop c ''command'')
      \<or> truthy (get_prop c ''wait'') \<or> truthy (get_prop c ''httpBodyComparison'')"
    using kinds_present_Nil [of c] by simp
  show "executeTest S L yamlDefinition s =
      (if hd (kinds_present c) = ''http'' then Some (executeHttpTest S L c s)
       else if hd (kinds_present c) = ''command'' then Some (executeCommandTest S L c s)
       else if hd (kinds_present c) = ''wait''
         then executeKubectlWait S L (get_prop c ''wait'') (get_prop c ''setVars'') s
       else Some (executeHttpBodyComparisonTest S c s))"
    using assms some by (auto simp add: kinds_present_hd [OF ne] executeTest_def)
qed

theorem dispatcher_takes_first_present_kind_witness:
  "executeTest sample_sys world_lib ''greet'' (Map.empty, 0)
     = Some (executeCommandTest sample_sys world_lib passing_test (Map.empty, 0))
   \<and> executeTest sample_sys (world_lib \<lparr>yaml_load := (\<lambda>s. Inr (JObj [(''name'', JStr ''unknown'')]))\<rparr>)
        ''unknown'' (Map.empty, 0)
     = Some (Inl (Error ''Unknown test type: test definition must contain one of: http, command, wait, httpBodyComparison''), (Map.empty, 0))"
proof -
  have l1: "yaml_load world_lib ''greet'' = Inr passing_test"
    by (simp add: world_lib_def sample_yaml_load_def)
  have k1: "kinds_present passing_test = [''command'']"
    by (simp add: kinds_present_def kind_keys_def passing_test_def)
  have k2: "kinds_present (JObj [(''name'', JStr ''unknown'')]) = []"
    by (simp add: kinds_present_def kind_keys_def)
  show ?thesis
    using dispatcher_takes_first_present_kind [OF l1, of sample_sys "(Map.empty, 0)"]
      dispatcher_takes_first_present_kind [of
        "world_lib \<lparr>yaml_load := (\<lambda>s. Inr (JObj [(''name'', JStr ''unknown'')]))\<rparr>"
        "''unknown''" "JObj [(''name'', JStr ''unknown'')]" sample_sys "(Map.empty, 0)"]
    by (simp add: k1 k2) (simp add: passing_test_def)
qed

text \<open>
  C2, the claim as stated fails when more than one kind key is present. The
  definition \<open>both\<close> carries \<open>http\<close> and \<open>command\<close>; the dispatcher raises nothing and
  returns the verdict of the HTTP executor.
\<close>

theorem dispatcher_accepts_two_kinds:
  "kinds_present two_kinds_test = [''http'', ''command'']
   \<and> yaml_load world_lib ''both'' = Inr two_kinds_test
   \<and> map_option fst (executeTest sample_sys world_lib ''both'' (Map.empty, 0)) = Some (Inr True)"
  by (simp add: kinds_present_def kind_keys_def two_kinds_test_def world_lib_def
      sample_yaml_load_def executeTest_def executeHttpTest_def sample_sys_def sample_response_def
      validateHttpExpectations_def)

section \<open>Extraction needs a validated result\<close>

lemma executeHttpTest_guard:
  assumes "truthy (get_prop c ''http'')"
    and "truthy (get_prop c ''setVars'')" and "\<not> truthy (get_prop c ''expect'')"
  shows \<open>executeHttpTest S L c s =
    (Inl (Error ''setVars requires "expect" to be defined on the test''), s)\<close>
  using assms by (cases s) (simp add: executeHttpTest_def)

lemma executeCommandTest_guard:
  assumes "truthy (get_prop c ''command'')"
    and "truthy (get_prop c ''setVars'')" and "\<not> truthy (get_prop c ''expect'')"
  shows \<open>executeCommandTest S L c s =
    (Inl (Error ''setVars requires "expect" to be defined on the test''), s)\<close>
  using assms by (cases s) (simp add: executeCommandTest_def)

lemma executeHttpTest_failed_validation:
  assumes "http_exchange S c env w = (Inr response, w1)"
    and "validateHttpExpectations L env response (get_prop c ''expect'') = Inl e"
  shows "\<exists>e'. executeHttpTest S L c (env, w) = (Inl e', (env, w)) \<or>
               executeHttpTest S L c (env, w) = (Inl e', (env, w1))"
  using assms by (auto simp: executeHttpTest_def)

lemma executeCommandTest_failed_validation:
  assumes "run_command S c env w = (Inr result, w1)"
    and "truthy (get_prop c ''expect'')"
    and "validateCommandExpectations L result (get_prop c ''expect'') = Inl e"
  shows "\<exists>e'. executeCommandTest S L c (env, w) = (Inl e', (env, w)) \<or>
               executeCommandTest S L c (env, w) = (Inl e', (env, w1))"
  using assms by (auto simp: executeCommandTest_def)

text \<open>
  C9, as amended. For every definition the dispatcher hands to the HTTP or the command
  executor (the key \<open>http\<close> is present, or else the key \<open>command\<close>), a \<open>setVars\<close> block
  with no \<open>expect\<close> block is rejected with the fatal error
  \<open>setVars requires "expect" to be defined on the test\<close> before anything runs: the
  variable store and the world are as they were. When the request or the command has run
  and the validation of its result fails, the executor raises and the store is
  unchanged: extraction runs only after a validation that passed.
\<close>

theorem setVars_requires_expect_http_command:
  \<open>(yaml_load L yamlDefinition = Inr c \<and> truthy c \<and> typeof c = ''object''
       \<and> (truthy (get_prop c ''http'') \<or> truthy (get_prop c ''command''))
       \<and> truthy (get_prop c ''setVars'') \<and> \<not> truthy (get_prop c ''expect'') \<longrightarrow>
      executeTest S L yamlDefinition s =
        Some (Inl (Error ''setVars requires "expect" to be defined on the test''), s))
   \<and> (http_exchange S c env w = (Inr response, w1)
       \<and> validateHttpExpectations L env response (get_prop c ''expect'') = Inl e \<longrightarrow>
      isl (fst (executeHttpTest S L c (env, w))) \<and> fst (snd (executeHttpTest S L c (env, w))) = env)
   \<and> (run_command S c env w = (Inr result, w1) \<and> truthy (get_prop c ''expect'')
       \<and> validateCommandExpectations L result (get_prop c ''expect'') = Inl e \<longrightarrow>
      isl (fst (executeCommandTest S L c (env, w))) \<and> fst (snd (executeCommandTest S L c (env, w))) = env)\<close>
proof (intro conjI impI)
  assume a: \<open>yaml_load L yamlDefinition = Inr c \<and> truthy c \<and> typeof c = ''object''
       \<and> (truthy (get_prop c ''http'') \<or> truthy (get_prop c ''command''))
       \<and> truthy (get_prop c ''setVars'') \<and> \<not> truthy (get_prop c ''expect'')\<close>
  then have l: "yaml_load L yamlDefinition = Inr c" and t: "truthy c" "typeof c = ''object''"
    and sv: "truthy (get_prop c ''setVars'')" and ex: "\<not> truthy (get_prop c ''expect'')"
    and k: "truthy (get_prop c ''http'') \<or> truthy (get_prop c ''command'')"
    by simp_all
  show \<open>executeTest S L yamlDefinition s =
        Some (Inl (Error ''setVars requires "expect" to be defined on the test''), s)\<close>
  proof (cases "truthy (get_prop c ''http'')")
    case True
    then show ?thesis
      using l t executeHttpTest_guard [OF True sv ex, of S L s] by (simp add: executeTest_def)
  next
    case False
    with k have cmd: "truthy (get_prop c ''command'')" by simp
    show ?thesis
      using l t False cmd executeCommandTest_guard [OF cmd sv ex, of S L s]
      by (simp add: executeTest_def)
  qed
next
  assume "http_exchange S c env w = (Inr response, w1)
       \<and> validateHttpExpectations L env response (get_prop c ''expect'') = Inl e"
  then have "\<exists>e'. executeHttpTest S L c (env, w) = (Inl e', (env, w)) \<or>
               executeHttpTest S L c (env, w) = (Inl e', (env, w1))"
    by (intro executeHttpTest_failed_validation) (elim conjE, assumption)+
  then show "isl (fst (executeHttpTest S L c (env, w)))"
    and "fst (snd (executeHttpTest S L c (env, w))) = env"
    by auto
next
  assume "run_command S c env w = (Inr result, w1) \<and> truthy (get_prop c ''expect'')
       \<and> validateCommandExpectations L result (get_prop c ''expect'') = Inl e"
  then have "\<exists>e'. executeCommandTest S L c (env, w) = (Inl e', (env, w)) \<or>
               executeCommandTest S L c (env, w) = (Inl e', (env, w1))"
    by (intro executeCommandTest_failed_validation) (elim conjE, assumption)+
  then show "isl (fst (executeCommandTest S L c (env, w)))"
    and "fst (snd (executeCommandTest S L c (env, w))) = env"
    by auto
qed

theorem setVars_requires_expect_http_command_witness:
  \<open>executeTest sample_sys
      (world_lib \<lparr>yaml_load := (\<lambda>s. Inr (JObj [(''http'', JObj [(''url'', JStr ''http://svc'')]),
         (''source'', JObj [(''type'', JStr ''local'')]),
         (''setVars'', JObj [(''TOKEN'', JObj [(''body'', JBool True)])])]))\<rparr>)
      ''token'' (Map.empty, 0)
     = Some (Inl (Error ''setVars requires "expect" to be defined on the test''), (Map.empty, 0))
   \<and> isl (fst (executeHttpTest sample_sys world_lib
        (JObj [(''http'', JObj [(''url'', JStr ''http://svc'')]),
          (''expect'', JObj [(''statusCode'', JNum 404)]),
          (''setVars'', JObj [(''TOKEN'', JObj [(''body'', JBool True)])])]) (Map.empty, 0)))
   \<and> fst (snd (executeHttpTest sample_sys world_lib
        (JObj [(''http'', JObj [(''url'', JStr ''http://svc'')]),
          (''expect'', JObj [(''statusCode'', JNum 404)]),
          (''setVars'', JObj [(''TOKEN'', JObj [(''body'', JBool True)])])]) (Map.empty, 0))) = Map.empty
   \<and> isl (fst (executeCommandTest sample_sys world_lib
        (JObj [(''command'', JObj [(''command'', JStr ''echo hello'')]),
          (''expect'', JObj [(''exitCode'', JNum 1)]),
          (''setVars'', JObj [(''OUT'', JObj [(''stdout'', JBool True)])])]) (Map.empty, 0)))
   \<and> fst (snd (executeCommandTest sample_sys world_lib
        (JObj [(''command'', JObj [(''command'', JStr ''echo hello'')]),
          (''expect'', JObj [(''exitCode'', JNum 1)]),
          (''setVars'', JObj [(''OUT'', JObj [(''stdout'', JBool True)])])]) (Map.empty, 0))) = Map.empty\<close>
proof -
  let ?h0 = "JObj [(''http'', JObj [(''url'', JStr ''http://svc'')]),
         (''source'', JObj [(''type'', JStr ''local'')]),
         (''setVars'', JObj [(''TOKEN'', JObj [(''body'', JBool True)])])]"
  let ?h1 = "JObj [(''http'', JObj [(''url'', JStr ''http://svc'')]),
          (''expect'', JObj [(''statusCode'', JNum 404)]),
          (''setVars'', JObj [(''TOKEN'', JObj [(''body'', JBool True)])])]"
  let ?c1 = "JObj [(''command'', JObj [(''command'', JStr ''echo hello'')]),
          (''expect'', JObj [(''exitCode'', JNum 1)]),
          (''setVars'', JObj [(''OUT'', JObj [(''stdout'', JBool True)])])]"
  have v1: "validateHttpExpectations world_lib Map.empty sample_response (get_prop ?h1 ''expect'')
      = Inl (Error ''Status code mismatch: expected 404, got 200'')"
    by (simp add: validateHttpExpectations_def sample_response_def string_of_int_def
        string_of_nat.simps digit_char_def)
  have v2: "validateCommandExpectations world_lib sample_result (get_prop ?c1 ''expect'')
      = Inl (Error ''Exit code mismatch: expected 1, got 0'')"
    by (simp add: validateCommandExpectations_def sample_result_def string_of_int_def
        string_of_nat.simps digit_char_def)
  have x1: "http_exchange sample_sys ?h1 Map.empty 0 = (Inr sample_response, 5)"
    and x2: "run_command sample_sys ?c1 Map.empty 0 = (Inr sample_result, 5)"
    by (simp_all add: sample_sys_def)
  show ?thesis
    using setVars_requires_expect_http_command [where L = "world_lib \<lparr>yaml_load := (\<lambda>s. Inr ?h0)\<rparr>"
        and yamlDefinition = "''token''" and c = ?h0 and S = sample_sys and s = "(Map.empty, 0)"]
      setVars_requires_expect_http_command [where L = world_lib and c = ?h1 and S = sample_sys
        and env = Map.empty and w = 0 and response = sample_response and ?w1.0 = 5
        and e = "Error ''Status code mismatch: expected 404, got 200''"]
      setVars_requires_expect_http_command [where L = world_lib and c = ?c1 and S = sample_sys
        and env = Map.empty and w = 0 and result = sample_result and ?w1.0 = 5
        and e = "Error ''Exit code mismatch: expected 1, got 0''"]
      v1 v2 x1 x2
    by simp
qed

text \<open>
  C9, the claim as stated fails for the other kinds. A wait definition carries no
  \<open>expect\<close> block (its expectation is the \<open>jsonPathExpectation\<close> of the wait); with a
  \<open>setVars\<close> block and no \<open>expect\<close> the dispatcher hands it to the wait poller, which
  polls, extracts and publishes: here the variable \<open>REPLICAS\<close> gets the text \<open>3\<close>.
\<close>

theorem wait_extracts_without_expect:
  "yaml_load world_lib ''rollout'' = Inr wait_test
   \<and> truthy (get_prop wait_test ''setVars'')
   \<and> \<not> truthy (get_prop wait_test ''expect'')
   \<and> map_option (\<lambda>r. (fst r, fst (snd r) ''REPLICAS''))
        (executeTest sample_sys world_lib ''rollout'' (Map.empty, 0)) = Some (Inr True, Some ''3'')"
proof -
  have l: "yaml_load world_lib ''rollout'' = Inr wait_test"
    by (simp add: world_lib_def sample_yaml_load_def)
  have a: "wait_attempt sample_sys world_lib
      \<lparr>cmd = c, jsonPath = JStr ''$.status.readyReplicas'', jsonPathExpectation = JUndefined,
        setVars = JObj [(''REPLICAS'', JObj [(''value'', JBool True)])],
        deadline = d, interval_ms = i, maxRetries = JUndefined, timeoutSeconds = t,
        resourceDescription = r\<rparr> (Map.empty, 0)
     = (True, (Map.empty(''REPLICAS'' \<mapsto> ''3''), 100))" for c d i t r
    by (simp add: wait_attempt_def sample_sys_def world_lib_def sample_lib_def trim_def
        is_space_def sample_deployment_def sample_jsonpath_def applySetVars_def extract_value_def
        JSON_stringify_def tmpl_def string_of_int_def string_of_nat.simps digit_char_def)
  have e: "map_option (\<lambda>r. (fst r, fst (snd r) ''REPLICAS''))
        (executeTest sample_sys world_lib ''rollout'' (Map.empty, 0)) = Some (Inr True, Some ''3'')"
    apply (simp add: executeTest_def l)
    apply (simp add: wait_test_def executeKubectlWait_def buildSelectorArgs_def polling_of_def
        Let_def opt_prop_def coalesce_def times_1000_def)
    apply (subst wait_loop.simps)
    apply (simp add: a)
    done
  show ?thesis
    using l e by (simp add: wait_test_def)
qed

section \<open>Properties of the wait poller\<close>

lemma wait_loop_turn_retry:
  assumes "deadline P = Some d" and "not_yet S L P s d n" and "\<not> ceiling_hit L P n"
  shows "wait_loop S L P (int n) (retry_state S L P s n)
     = wait_loop S L P (int (Suc n)) (retry_state S L P s (Suc n))"
proof -
  obtain ok env' w' where a: "wait_attempt S L P (retry_state S L P s n) = (ok, (env', w'))"
    by (metis surj_pair)
  have nok: "\<not> ok" using assms(2) a by (simp add: not_yet_def)
  have before: "now S (snd (retry_state S L P s n)) < d"
    using assms(2) by (simp add: not_yet_def)
  have c: "\<not> (maxRetries P \<noteq> JUndefined \<and> num_ge (Some (int n)) (to_number L (maxRetries P)))"
    using assms(3) by (simp add: ceiling_hit_def)
  have nxt: "retry_state S L P s (Suc n)
     = (env', sleep S (case interval_ms P of None \<Rightarrow> 0 | Some ms \<Rightarrow> ms) w')"
    by (simp add: a)
  have one: "int n + 1 = int (Suc n)" by simp
  show ?thesis
    by (subst wait_loop.simps) (simp only: assms(1) option.case before c a nok nxt one if_True
        if_False prod.case)
qed

lemma wait_loop_timeout_from:
  assumes d: "deadline P = Some d"
    and turns: "\<forall>n<N. not_yet S L P s d n \<and> \<not> ceiling_hit L P n"
    and late: "d \<le> now S (snd (retry_state S L P s N))"
    and "k \<le> N"
  shows "wait_loop S L P (int k) (retry_state S L P s k)
     = Some (Inl (Error (timeout_message P)), retry_state S L P s N)"
  using \<open>k \<le> N\<close>
proof (induction "N - k" arbitrary: k)
  case 0
  then have "k = N" by simp
  then show ?case
    using late by (subst wait_loop.simps) (simp add: d)
next
  case (Suc m)
  then have "k < N" by simp
  then have "not_yet S L P s d k" "\<not> ceiling_hit L P k"
    using turns by simp_all
  then have step: "wait_loop S L P (int k) (retry_state S L P s k)
     = wait_loop S L P (int (Suc k)) (retry_state S L P s (Suc k))"
    by (rule wait_loop_turn_retry [OF d])
  have m: "m = N - Suc k" and le: "Suc k \<le> N" using Suc.hyps(2) \<open>k < N\<close> by simp_all
  have "wait_loop S L P (int (Suc k)) (retry_state S L P s (Suc k))
     = Some (Inl (Error (timeout_message P)), retry_state S L P s N)"
    by (rule Suc.hyps(1) [OF m le])
  with step show ?case by (simp only:)
qed

lemma wait_loop_retries_from:
  assumes d: "deadline P = Some d"
    and turns: "\<forall>n<M. not_yet S L P s d n \<and> \<not> ceiling_hit L P n"
    and hit: "ceiling_hit L P M"
    and early: "now S (snd (retry_state S L P s M)) < d"
    and "k \<le> M"
  shows "wait_loop S L P (int k) (retry_state S L P s k)
     = Some (Inl (Error (retries_message P)), retry_state S L P s M)"
  using \<open>k \<le> M\<close>
proof (induction "M - k" arbitrary: k)
  case 0
  then have "k = M" by simp
  then show ?case
    using early hit by (subst wait_loop.simps) (simp add: d ceiling_hit_def)
next
  case (Suc m)
  then have "k < M" by simp
  then have "not_yet S L P s d k" "\<not> ceiling_hit L P k"
    using turns by simp_all
  then have step: "wait_loop S L P (int k) (retry_state S L P s k)
     = wait_loop S L P (int (Suc k)) (retry_state S L P s (Suc k))"
    by (rule wait_loop_turn_retry [OF d])
  have m: "m = M - Suc k" and le: "Suc k \<le> M" using Suc.hyps(2) \<open>k < M\<close> by simp_all
  have "wait_loop S L P (int (Suc k)) (retry_state S L P s (Suc k))
     = Some (Inl (Error (retries_message P)), retry_state S L P s M)"
    by (rule Suc.hyps(1) [OF m le])
  with step show ?case by (simp only:)
qed

lemma executeKubectlWait_polls:
  assumes "truthy (get_prop config ''target'')"
    and "(if truthy sv then check_wait_rules (object_entries sv) (get_prop config ''jsonPath'')
          else Inr ()) = Inr ()"
    and "buildSelectorArgs (fst s) (get_prop config ''target'') = Inr args"
  shows "executeKubectlWait S L config sv s = wait_loop S L (polling_of S L config sv s args) 0 s"
  using assms by (simp add: executeKubectlWait_def)

lemma ceiling_hit_number:
  "maxRetries P \<noteq> JUndefined \<Longrightarrow> to_number L (maxRetries P) = Some m \<Longrightarrow>
   ceiling_hit L P n = (m \<le> int n)"
  by (simp add: ceiling_hit_def num_ge_def)

lemma timeout_message_full:
  "truthy (jsonPath P) \<Longrightarrow> truthy (jsonPathExpectation P) \<Longrightarrow>
   timeout_message P =
     ''Timed-out ('' @ js_String (timeoutSeconds P) @ ''s) waiting for '' @ resourceDescription P
       @ '' '' @ [CHR 0xE2, CHR 0x86, CHR 0x92] @ '' '' @ js_String (jsonPath P) @ '' to ''
       @ (if truthy (get_prop (jsonPathExpectation P) ''negate'') then ''not '' else [])
       @ js_String (get_prop (jsonPathExpectation P) ''comparator'')
       @ (if get_prop (jsonPathExpectation P) ''comparator'' \<noteq> JStr ''exists''
          then '' '' @ tmpl (JSON_stringify (get_prop (jsonPathExpectation P) ''value'')) else [])"
  by (simp add: timeout_message_def)

text \<open>
  C8. Take a wait whose target, \<open>setVars\<close> and selector are accepted, so that the
  poller enters its loop with the constants \<open>P\<close>, and whose condition never becomes true:
  every turn that starts before the deadline \<open>d\<close> counts a retry.
  \<^item> If the first \<open>N\<close> turns start before the deadline without hitting the retry ceiling
    and turn \<open>N\<close> starts at or after the deadline, the poller raises the timeout error.
    With a \<open>jsonPath\<close> and an expectation configured, its message names the resource,
    the path and the expectation:
    \<open>Timed-out (Ts) waiting for R \<rightarrow> PATH to [not ]COMPARATOR[ VALUE]\<close>.
  \<^item> If the first \<open>M\<close> turns start before the deadline without hitting the ceiling, and
    turn \<open>M\<close> starts before the deadline with the ceiling hit, the poller raises the
    retries-exhausted error \<open>Maximum retries (MAX) exceeded while waiting for R\<close>.
  \<^item> With \<open>maxRetries\<close> a number \<open>m\<close>, the ceiling is hit at the start of turn \<open>n\<close> exactly
    when \<open>m \<le> n\<close>; with no \<open>maxRetries\<close> it is never hit.
  In both cases the state is the one the last retry left.
\<close>

theorem poller_times_out_or_exhausts_retries:
  "(truthy (get_prop config ''target'')
      \<and> (if truthy sv then check_wait_rules (object_entries sv) (get_prop config ''jsonPath'')
          else Inr ()) = Inr ()
      \<and> buildSelectorArgs (fst s) (get_prop config ''target'') = Inr args
      \<and> P = polling_of S L config sv s args \<and> deadline P = Some d \<longrightarrow>
     ((\<forall>n<N. not_yet S L P s d n \<and> \<not> ceiling_hit L P n)
        \<and> d \<le> now S (snd (retry_state S L P s N)) \<longrightarrow>
      executeKubectlWait S L config sv s
        = Some (Inl (Error (timeout_message P)), retry_state S L P s N))
     \<and> ((\<forall>n<M. not_yet S L P s d n \<and> \<not> ceiling_hit L P n)
        \<and> ceiling_hit L P M \<and> now S (snd (retry_state S L P s M)) < d \<longrightarrow>
      executeKubectlWait S L config sv s
        = Some (Inl (Error (retries_message P)), retry_state S L P s M)))
   \<and> (truthy (jsonPath P) \<and> truthy (jsonPathExpectation P) \<longrightarrow>
      timeout_message P =
        ''Timed-out ('' @ js_String (timeoutSeconds P) @ ''s) waiting for '' @ resourceDescription P
          @ '' '' @ [CHR 0xE2, CHR 0x86, CHR 0x92] @ '' '' @ js_String (jsonPath P) @ '' to ''
          @ (if truthy (get_prop (jsonPathExpectation P) ''negate'') then ''not '' else [])
          @ js_String (get_prop (jsonPathExpectation P) ''comparator'')
          @ (if get_prop (jsonPathExpectation P) ''comparator'' \<noteq> JStr ''exists''
             then '' '' @ tmpl (JSON_stringify (get_prop (jsonPathExpectation P) ''value'')) else []))
   \<and> (maxRetries P = JUndefined \<longrightarrow> \<not> ceiling_hit L P n)
   \<and> (maxRetries P \<noteq> JUndefined \<and> to_number L (maxRetries P) = Some m \<longrightarrow>
        ceiling_hit L P n = (m \<le> int n))"
proof (intro conjI impI)
  assume a: "truthy (get_prop config ''target'')
      \<and> (if truthy sv then check_wait_rules (object_entries sv) (get_prop config ''jsonPath'')
          else Inr ()) = Inr ()
      \<and> buildSelectorArgs (fst s) (get_prop config ''target'') = Inr args
      \<and> P = polling_of S L config sv s args \<and> deadline P = Some d"
  then have run: "executeKubectlWait S L config sv s = wait_loop S L P 0 s"
    using executeKubectlWait_polls [of config sv s args S L] by simp
  from a have d: "deadline P = Some d" by (elim conjE)
  {
    assume b: "(\<forall>n<N. not_yet S L P s d n \<and> \<not> ceiling_hit L P n)
        \<and> d \<le> now S (snd (retry_state S L P s N))"
    then have "wait_loop S L P (int 0) (retry_state S L P s 0)
        = Some (Inl (Error (timeout_message P)), retry_state S L P s N)"
      by (intro wait_loop_timeout_from [OF d]) simp_all
    then show "executeKubectlWait S L config sv s
        = Some (Inl (Error (timeout_message P)), retry_state S L P s N)"
      using run by simp
  }
  {
    assume b: "(\<forall>n<M. not_yet S L P s d n \<and> \<not> ceiling_hit L P n)
        \<and> ceiling_hit L P M \<and> now S (snd (retry_state S L P s M)) < d"
    then have "wait_loop S L P (int 0) (retry_state S L P s 0)
        = Some (Inl (Error (retries_message P)), retry_state S L P s M)"
      by (intro wait_loop_retries_from [OF d]) simp_all
    then show "executeKubectlWait S L config sv s
        = Some (Inl (Error (retries_message P)), retry_state S L P s M)"
      using run by simp
  }
next
  assume "truthy (jsonPath P) \<and> truthy (jsonPathExpectation P)"
  then show "timeout_message P =
        ''Timed-out ('' @ js_String (timeoutSeconds P) @ ''s) waiting for '' @ resourceDescription P
          @ '' '' @ [CHR 0xE2, CHR 0x86, CHR 0x92] @ '' '' @ js_String (jsonPath P) @ '' to ''
          @ (if truthy (get_prop (jsonPathExpectation P) ''negate'') then ''not '' else [])
          @ js_String (get_prop (jsonPathExpectation P) ''comparator'')
          @ (if get_prop (jsonPathExpectation P) ''comparator'' \<noteq> JStr ''exists''
             then '' '' @ tmpl (JSON_stringify (get_prop (jsonPathExpectation P) ''value'')) else [])"
    using timeout_message_full [of P] by simp
next
  assume "maxRetries P = JUndefined"
  then show "\<not> ceiling_hit L P n" by (simp add: ceiling_hit_def)
next
  assume "maxRetries P \<noteq> JUndefined \<and> to_number L (maxRetries P) = Some m"
  then show "ceiling_hit L P n = (m \<le> int n)"
    using ceiling_hit_number [of P L m n] by simp
qed

lemma never_attempt: "wait_attempt never_sys L P (env, w) = (False, (env, w + 100))"
  by (simp add: wait_attempt_def never_sys_def sample_sys_def)

lemma never_clock: "sleep never_sys ms w = w + ms" "now never_sys w = w"
  by (simp_all add: never_sys_def sample_sys_def)

lemma never_retry_state:
  "interval_ms P = Some ms \<Longrightarrow>
   retry_state never_sys L P (env, 0) n = (env, (100 + ms) * int n)"
  by (induction n) (simp_all add: never_attempt never_clock algebra_simps)

lemma never_not_yet:
  "interval_ms P = Some ms \<Longrightarrow>
   not_yet never_sys L P (env, 0) d n = ((100 + ms) * int n < d)"
  by (simp add: not_yet_def never_retry_state never_attempt never_clock)

theorem poller_times_out_or_exhausts_retries_witness:
  "executeKubectlWait never_sys world_lib short_wait JUndefined (Map.empty, 0)
     = Some (Inl (Error (''Timed-out (4s) waiting for Deployment/default/web ''
          @ [CHR 0xE2, CHR 0x86, CHR 0x92] @ '' $.status.readyReplicas to equals 3'')),
        (Map.empty, 4400))
   \<and> executeKubectlWait never_sys world_lib bounded_wait JUndefined (Map.empty, 0)
     = Some (Inl (Error ''Maximum retries (2) exceeded while waiting for Deployment/default/web''),
        (Map.empty, 4200))"
proof -
  define args where "args = \<lparr>kindArg = ''deployment'', namespaceArg = ''-n default'',
    selectorArg = ''web'', contextArg = []\<rparr>"
  define P1 where "P1 = polling_of never_sys world_lib short_wait JUndefined (Map.empty, 0) args"
  define P2 where "P2 = polling_of never_sys world_lib bounded_wait JUndefined (Map.empty, 0) args"
  have target: "get_prop short_wait ''target'' = get_prop bounded_wait ''target''"
    "truthy (get_prop short_wait ''target'')"
    by (simp_all add: short_wait_def bounded_wait_def wait_config_def)
  have b: "buildSelectorArgs (fst (Map.empty, 0::int)) (get_prop short_wait ''target'') = Inr args"
    by (simp add: short_wait_def wait_config_def buildSelectorArgs_def args_def toLowerCase_def
        lower_char_def)
  have n3: "string_of_int 3 = ''3''" and n4: "string_of_int 4 = ''4''"
    and n2: "string_of_int 2 = ''2''"
    by (simp_all add: string_of_int_def string_of_nat.simps digit_char_def)
  have f1: "deadline P1 = Some 4000" "interval_ms P1 = Some 1000" "maxRetries P1 = JUndefined"
    by (simp_all add: P1_def polling_of_def short_wait_def wait_config_def opt_prop_def
        coalesce_def times_1000_def never_sys_def sample_sys_def)
  have f2: "deadline P2 = Some 60000" "interval_ms P2 = Some 2000" "maxRetries P2 = JNum 2"
    by (simp_all add: P2_def polling_of_def bounded_wait_def wait_config_def opt_prop_def
        coalesce_def times_1000_def never_sys_def sample_sys_def)
  have m1: "timeout_message P1 = ''Timed-out (4s) waiting for Deployment/default/web ''
          @ [CHR 0xE2, CHR 0x86, CHR 0x92] @ '' $.status.readyReplicas to equals 3''"
    by (simp add: timeout_message_def P1_def polling_of_def short_wait_def wait_config_def
        opt_prop_def coalesce_def getResourceDescription_def or_else_def JSON_stringify_def
        tmpl_def n3 n4)
  have m2: "retries_message P2
      = ''Maximum retries (2) exceeded while waiting for Deployment/default/web''"
    by (simp add: retries_message_def P2_def polling_of_def bounded_wait_def wait_config_def
        opt_prop_def coalesce_def getResourceDescription_def or_else_def n2)
  have c1: "\<not> ceiling_hit world_lib P1 n" for n
    by (simp add: ceiling_hit_def f1)
  have c2: "ceiling_hit world_lib P2 n = (2 \<le> int n)" for n
    by (simp add: ceiling_hit_def f2 num_ge_def)
  have t1: "\<forall>n<4. not_yet never_sys world_lib P1 (Map.empty, 0) 4000 n \<and> \<not> ceiling_hit world_lib P1 n"
    by (simp add: never_not_yet [OF f1(2)] c1)
  have t2: "\<forall>n<2. not_yet never_sys world_lib P2 (Map.empty, 0) 60000 n \<and> \<not> ceiling_hit world_lib P2 n"
    by (simp add: never_not_yet [OF f2(2)] c2)
  have r1: "retry_state never_sys world_lib P1 (Map.empty, 0) 4 = (Map.empty, 4400)"
    and r2: "retry_state never_sys world_lib P2 (Map.empty, 0) 2 = (Map.empty, 4200)"
    by (simp_all add: never_retry_state [OF f1(2)] never_retry_state [OF f2(2)])
  have nw: "now never_sys w = w" for w
    by (simp add: never_sys_def sample_sys_def)
  show ?thesis
    using poller_times_out_or_exhausts_retries [where config = short_wait and sv = JUndefined
        and s = "(Map.empty, 0)" and args = args and P = P1 and S = never_sys and L = world_lib
        and d = 4000 and N = 4 and M = 0]
      poller_times_out_or_exhausts_retries [where config = bounded_wait and sv = JUndefined
        and s = "(Map.empty, 0)" and args = args and P = P2 and S = never_sys and L = world_lib
        and d = 60000 and N = 0 and M = 2]
      target b t1 t2
    by (simp add: P1_def [symmetric] P2_def [symmetric] f1 f2 m1 m2 r1 r2 c2 nw)
qed

section \<open>Properties of the batch runner\<close>

lemma attempt_loop_outcome:
  "attempt_loop S L yamlStr label started retries attempt lastError s = Some (r, s') \<Longrightarrow>
   name r = label \<and> \<not> skipped r"
proof (induction S L yamlStr label started retries attempt lastError s
    rule: attempt_loop.induct)
  case (1 S L yamlStr label started retries attempt lastError s)
  show ?case
  proof (cases "attempt \<le> retries")
    case False
    with "1.prems" show ?thesis
      by (subst (asm) attempt_loop.simps) auto
  next
    case True
    show ?thesis
    proof (cases "executeTest S L yamlStr s")
      case None
      with True "1.prems" show ?thesis
        by (subst (asm) attempt_loop.simps) simp
    next
      case (Some res)
      obtain v env' w' where res: "res = (v, (env', w'))" by (metis surj_pair)
      show ?thesis
      proof (cases v)
        case (Inr b)
        with True Some res "1.prems" show ?thesis
          by (subst (asm) attempt_loop.simps) auto
      next
        case (Inl err)
        with True Some res "1.prems"
        have "attempt_loop S L yamlStr label started retries (attempt + 1) (Some err)
            (env', if attempt < retries then sleep S 500 w' else w') = Some (r, s')"
          by (subst (asm) attempt_loop.simps) simp
        then show ?thesis
          using "1.IH" [OF True Some, of v "(env', w')" err env' w'] res Inl by simp
      qed
    qed
  qed
qed

lemma runSingleTest_outcome:
  assumes "runSingleTest S L d i s = Some (Inr r, s')"
  shows "name r = label_of d i \<and> \<not> skipped r \<and> \<not> nullish d"
proof -
  have nn: "\<not> nullish d"
    using assms by (auto simp: runSingleTest_def)
  then obtain rt where "attempt_loop S L (serialiseDefinition L d) (label_of d i) (now S (snd s))
      rt 0 None s = Some (r, s')"
    using assms by (auto simp: runSingleTest_def Let_def split: option.splits)
  from attempt_loop_outcome [OF this] nn show ?thesis by simp
qed

lemma skip_from_entries:
  "skip_from ds i = Inr sk \<Longrightarrow>
   sk = map (skipped_outcome ds) [i..<length ds]"
proof (induction ds i arbitrary: sk rule: skip_from.induct)
  case (1 ds j)
  show ?case
  proof (cases "j < length ds")
    case False
    with "1.prems" show ?thesis
      by (subst (asm) skip_from.simps) simp
  next
    case True
    with "1.prems" have nn: "\<not> nullish (ds ! j)"
      by (subst (asm) skip_from.simps) (auto split: if_splits)
    with True "1.prems" obtain others where o: "skip_from ds (j + 1) = Inr others"
      and sk: "sk = skipped_outcome ds j # others"
      by (subst (asm) skip_from.simps) (auto simp: skipped_outcome_def split: sum.splits)
    from "1.IH" [OF True nn o] sk True show ?thesis
      by (simp add: upt_conv_Cons)
  qed
qed

lemma skip_from_defined:
  "\<forall>j. i \<le> j \<and> j < length ds \<longrightarrow> \<not> nullish (ds ! j) \<Longrightarrow> \<exists>sk. skip_from ds i = Inr sk"
proof (induction ds i rule: skip_from.induct)
  case (1 ds j)
  show ?case
  proof (cases "j < length ds")
    case False
    then show ?thesis by (subst skip_from.simps) simp
  next
    case True
    with "1.prems" have nn: "\<not> nullish (ds ! j)" by simp
    have "\<exists>sk. skip_from ds (j + 1) = Inr sk"
      using "1.IH" [OF True nn] "1.prems" by simp
    then show ?thesis
      using True nn by (subst skip_from.simps) auto
  qed
qed

lemma run_from_shape:
  "run_from S L ds i fin s = Some (Inr rs, s') \<Longrightarrow>
   \<exists>new. rs = fin @ new \<and> length new = length ds - i
     \<and> (\<forall>j<length new. outcome_of ds (i + j) (new ! j))"
proof (induction S L ds i fin s arbitrary: rs s' rule: run_from.induct)
  case (1 S L ds i fin s)
  show ?case
  proof (cases "i < length ds")
    case False
    with "1.prems" show ?thesis
      by (subst (asm) run_from.simps) simp
  next
    case True
    from "1.prems" True obtain res where one: "runSingleTest S L (ds ! i) i s = Some res"
      by (subst (asm) run_from.simps) (auto simp: normaliseDefinition_def split: option.splits)
    obtain v s1 where res: "res = (v, s1)" by (cases res)
    from "1.prems" True one res obtain r where v: "v = Inr r"
      by (subst (asm) run_from.simps) (auto simp: normaliseDefinition_def split: sum.splits)
    have r: "name r = label_of (ds ! i) i" "\<not> skipped r"
      using runSingleTest_outcome [of S L "ds ! i" i s r s1] one res v by simp_all
    show ?thesis
    proof (cases "passed r")
      case False
      with "1.prems" True one res v obtain others
        where o: "skip_from ds (i + 1) = Inr others" and rs: "rs = fin @ [r] @ others"
        by (subst (asm) run_from.simps) (auto simp: normaliseDefinition_def split: sum.splits)
      have others: "others = map (skipped_outcome ds) [i + 1..<length ds]"
        by (rule skip_from_entries [OF o])
      have "\<forall>j<length (r # others). outcome_of ds (i + j) ((r # others) ! j)"
      proof (intro allI impI)
        fix j assume "j < length (r # others)"
        then show "outcome_of ds (i + j) ((r # others) ! j)"
          using r others by (cases j) (simp_all add: outcome_of_def skipped_outcome_def)
      qed
      moreover have "length (r # others) = length ds - i"
        using True others by simp
      ultimately show ?thesis
        using rs by (intro exI [of _ "r # others"]) simp
    next
      case p: True
      with "1.prems" True one res v
      have "run_from S L ds (i + 1) (fin @ [r]) s1 = Some (Inr rs, s')"
        by (subst (asm) run_from.simps) (simp add: normaliseDefinition_def)
      moreover have f1: "runSingleTest S L (normaliseDefinition (ds ! i)) i s = Some (Inr r, s1)"
        using one res v by (simp add: normaliseDefinition_def)
      moreover have f4: "\<not> \<not> passed r" using p by simp
      ultimately obtain new where new: "rs = (fin @ [r]) @ new" "length new = length ds - (i + 1)"
        "\<forall>j<length new. outcome_of ds (i + 1 + j) (new ! j)"
        using "1.IH" [OF True f1 refl refl f4] by blast
      have "\<forall>j<length (r # new). outcome_of ds (i + j) ((r # new) ! j)"
      proof (intro allI impI)
        fix j assume "j < length (r # new)"
        then show "outcome_of ds (i + j) ((r # new) ! j)"
          using r new(3) by (cases j) (simp_all add: outcome_of_def)
      qed
      moreover have "length (r # new) = length ds - i"
        using True new(2) by simp
      ultimately show ?thesis
        using new(1) by (intro exI [of _ "r # new"]) simp
    qed
  qed
qed

lemma counts_partition:
  "\<forall>r\<in>set rs. \<not> (skipped r \<and> passed r) \<Longrightarrow>
   length (filter passed rs) + length (filter (\<lambda>r. \<not> passed r \<and> \<not> skipped r) rs)
     + length (filter skipped rs) = length rs"
  by (induction rs) auto

lemma parseTestDefinitions_nonempty:
  "parseTestDefinitions L yamlString = Inr ds \<Longrightarrow> ds \<noteq> []"
  by (auto simp: parseTestDefinitions_def Let_def split: sum.splits if_splits)

text \<open>
  C10. Whenever \<open>runTests\<close> returns a \<open>RunResult\<close>, whichever definition failed if any:
  the batch it parsed is not empty and \<open>total\<close> is its length; \<open>passed\<close>, \<open>failed\<close> and
  \<open>skipped\<close> add up to \<open>total\<close>; \<open>results\<close> has \<open>total\<close> entries, the entry at each index
  carrying the label of the definition at that index; and no entry marked skipped is
  marked passed.
\<close>

theorem run_result_accounts_for_every_definition:
  assumes "runTests S L yamlString s = Some (Inr rr, s')"
  shows "\<exists>ds. parseTestDefinitions L yamlString = Inr ds \<and> ds \<noteq> []
     \<and> RunResult.total rr = length ds
     \<and> passed_count rr + failed_count rr + skipped_count rr = RunResult.total rr
     \<and> length (results rr) = RunResult.total rr
     \<and> (\<forall>j<length ds. name (results rr ! j) = label_of (ds ! j) j)
     \<and> (\<forall>r\<in>set (results rr). skipped r \<longrightarrow> \<not> passed r)"
proof -
  from assms obtain ds where ds: "parseTestDefinitions L yamlString = Inr ds"
    by (auto simp: runTests_def split: sum.splits)
  with assms obtain rs where run: "run_from S L ds 0 [] s = Some (Inr rs, s')"
    and rr: "rr = \<lparr>total = length ds, passed_count = length (filter passed rs),
        failed_count = length (filter (\<lambda>r. \<not> passed r \<and> \<not> skipped r) rs),
        skipped_count = length (filter skipped rs), results = rs\<rparr>"
    by (auto simp: runTests_def split: option.splits sum.splits)
  from run_from_shape [OF run] have len: "length rs = length ds"
    and each: "\<forall>j<length rs. outcome_of ds j (rs ! j)"
    by auto
  have excl: "\<forall>r\<in>set rs. \<not> (skipped r \<and> passed r)"
    using each by (auto simp: outcome_of_def in_set_conv_nth)
  have "length (filter passed rs) + length (filter (\<lambda>r. \<not> passed r \<and> \<not> skipped r) rs)
     + length (filter skipped rs) = length rs"
    by (rule counts_partition [OF excl])
  moreover have "\<forall>j<length ds. name (rs ! j) = label_of (ds ! j) j"
    using each len by (simp add: outcome_of_def)
  moreover have "\<forall>r\<in>set rs. skipped r \<longrightarrow> \<not> passed r"
    using excl by blast
  ultimately show ?thesis
    using ds parseTestDefinitions_nonempty [OF ds] len rr by simp
qed

lemma run_from_fail_fast:
  assumes run: "\<forall>i. i0 \<le> i \<and> i < k \<longrightarrow> runSingleTest S L (ds ! i) i (st i) = Some (Inr (out i), st (i + 1))"
    and ok: "\<forall>i. i0 \<le> i \<and> i + 1 < k \<longrightarrow> passed (out i)"
    and bad: "\<not> passed (out (k - 1))"
    and k: "i0 < k" "k \<le> length ds"
    and sk: "skip_from ds k = Inr others"
  shows "run_from S L ds i0 fin (st i0) = Some (Inr (fin @ map out [i0..<k] @ others), st k)"
  using k(1) run ok
proof (induction "k - i0" arbitrary: i0 fin)
  case 0
  then show ?case by simp
next
  case (Suc m)
  have lt: "i0 < length ds" using Suc.prems(1) k(2) by simp
  have one: "runSingleTest S L (normaliseDefinition (ds ! i0)) i0 (st i0)
      = Some (Inr (out i0), st (i0 + 1))"
    using Suc.prems(1,2) by (simp add: normaliseDefinition_def)
  show ?case
  proof (cases "i0 + 1 = k")
    case True
    then have last: "\<not> passed (out i0)" "[i0..<k] = [i0]"
      using bad by (auto simp: upt_conv_Cons)
    show ?thesis
      using lt one last sk True by (subst run_from.simps) simp
  next
    case False
    then have more: "i0 + 1 < k" using Suc.prems(1) by simp
    then have p: "passed (out i0)" using Suc.prems(3) by simp
    have m: "m = k - (i0 + 1)" using Suc.hyps(2) by simp
    have "run_from S L ds (i0 + 1) (fin @ [out i0]) (st (i0 + 1))
        = Some (Inr ((fin @ [out i0]) @ map out [i0 + 1..<k] @ others), st k)"
      using Suc.prems(2,3) by (intro Suc.hyps(1) [OF m more]) simp_all
    moreover have "[i0..<k] = i0 # [i0 + 1..<k]"
      using Suc.prems(1) by (simp add: upt_conv_Cons)
    ultimately show ?thesis
      using lt one p by (subst run_from.simps) simp
  qed
qed

lemma executed_counts:
  assumes ok: "\<forall>i. i + 1 < k \<longrightarrow> passed (out i)"
    and bad: "\<not> passed (out (k - 1))"
    and ns: "\<forall>i<k. \<not> skipped (out i)"
    and k: "1 \<le> k"
  shows "length (filter passed (map out [0..<k])) = k - 1"
    and "length (filter (\<lambda>r. \<not> passed r \<and> \<not> skipped r) (map out [0..<k])) = 1"
    and "length (filter skipped (map out [0..<k])) = 0"
proof -
  obtain m where m: "k = Suc m" using k by (cases k) auto
  have all: "\<forall>i<m. passed (out i)" using ok m by simp
  have f1: "filter passed (map out [0..<m]) = map out [0..<m]"
    using all by (simp add: filter_id_conv)
  have f2: "filter (\<lambda>r. \<not> passed r \<and> \<not> skipped r) (map out [0..<m]) = []"
    using all by (simp add: filter_empty_conv)
  have f3: "filter skipped (map out [0..<Suc m]) = []"
    using ns m by (simp add: filter_empty_conv)
  show "length (filter passed (map out [0..<k])) = k - 1"
    using f1 bad m by simp
  show "length (filter (\<lambda>r. \<not> passed r \<and> \<not> skipped r) (map out [0..<k])) = 1"
    using f2 bad ns m by simp
  show "length (filter skipped (map out [0..<k])) = 0"
    using f3 m by simp
qed

lemma skipped_counts:
  "filter passed (map (skipped_outcome ds) js) = []"
  "filter (\<lambda>r. \<not> passed r \<and> \<not> skipped r) (map (skipped_outcome ds) js) = []"
  "filter skipped (map (skipped_outcome ds) js) = map (skipped_outcome ds) js"
  by (simp_all add: filter_empty_conv filter_id_conv skipped_outcome_def)

text \<open>
  C1. Take a batch of \<open>N\<close> definitions, none of them \<open>null\<close>, run from the state
  \<open>st 0\<close>, in which the first \<open>k - 1\<close> definitions pass and the \<open>k\<close>-th fails: for each
  \<open>i < k\<close>, \<open>runSingleTest\<close> on definition \<open>i\<close> in the state \<open>st i\<close> returns the outcome
  \<open>out i\<close> and leaves the state \<open>st (i + 1)\<close>. Then \<open>runTests\<close> returns a \<open>RunResult\<close>
  with \<open>k - 1\<close> passed, 1 failed and \<open>N - k\<close> skipped; its first \<open>k\<close> entries are the
  outcomes \<open>out i\<close>; every entry from position \<open>k + 1\<close> on is the skipped outcome of its
  definition, with \<open>attempts = 0\<close>; and the final state is \<open>st k\<close>, the state the \<open>k\<close>-th
  definition left: no later definition was executed.
\<close>

theorem fail_fast_counts:
  assumes parse: "parseTestDefinitions L yamlString = Inr ds"
    and k: "1 \<le> k" "k \<le> length ds"
    and objs: "\<forall>d\<in>set ds. \<not> nullish d"
    and run: "\<forall>i<k. runSingleTest S L (ds ! i) i (st i) = Some (Inr (out i), st (i + 1))"
    and ok: "\<forall>i. i + 1 < k \<longrightarrow> passed (out i)"
    and bad: "\<not> passed (out (k - 1))"
  shows "\<exists>rr. runTests S L yamlString (st 0) = Some (Inr rr, st k)
      \<and> RunResult.total rr = length ds
      \<and> passed_count rr = k - 1 \<and> failed_count rr = 1 \<and> skipped_count rr = length ds - k
      \<and> (\<forall>i<k. results rr ! i = out i)
      \<and> (\<forall>j. k \<le> j \<and> j < length ds \<longrightarrow>
            results rr ! j = skipped_outcome ds j
            \<and> skipped (results rr ! j) \<and> attempts (results rr ! j) = 0)"
proof -
  have "\<forall>j. k \<le> j \<and> j < length ds \<longrightarrow> \<not> nullish (ds ! j)"
    using objs by simp
  then obtain others where sk: "skip_from ds k = Inr others"
    using skip_from_defined [of k ds] by blast
  have others: "others = map (skipped_outcome ds) [k..<length ds]"
    by (rule skip_from_entries [OF sk])
  define rs where "rs = map out [0..<k] @ others"
  have run0: "run_from S L ds 0 [] (st 0) = Some (Inr rs, st k)"
    using run_from_fail_fast [of 0 k S L ds st out others "[]"] run ok bad k sk
    by (simp add: rs_def)
  have ns: "\<forall>i<k. \<not> skipped (out i)"
    using run runSingleTest_outcome by blast
  have c1: "length (filter passed rs) = k - 1"
    and c2: "length (filter (\<lambda>r. \<not> passed r \<and> \<not> skipped r) rs) = 1"
    and c3: "length (filter skipped rs) = length ds - k"
    using executed_counts [OF ok bad ns k(1)] skipped_counts [of ds "[k..<length ds]"]
    by (simp_all add: rs_def others)
  have first: "\<forall>i<k. rs ! i = out i"
    by (simp add: rs_def nth_append)
  have rest: "\<forall>j. k \<le> j \<and> j < length ds \<longrightarrow> rs ! j = skipped_outcome ds j"
    by (auto simp: rs_def others nth_append)
  have sko: "skipped (skipped_outcome ds j) \<and> attempts (skipped_outcome ds j) = 0" for j
    by (simp add: skipped_outcome_def)
  let ?rr = "\<lparr>total = length ds, passed_count = length (filter passed rs),
        failed_count = length (filter (\<lambda>r. \<not> passed r \<and> \<not> skipped r) rs),
        skipped_count = length (filter skipped rs), results = rs\<rparr>"
  have "runTests S L yamlString (st 0) = Some (Inr ?rr, st k)"
    using parse run0 by (simp add: runTests_def)
  then show ?thesis
    using c1 c2 c3 first rest sko by (intro exI [of _ ?rr]) simp
qed

subsection \<open>A batch of three\<close>

lemma sample_numbers:
  "string_of_int 200 = ''200''" "string_of_int 404 = ''404''" "string_of_nat 3 = ''3''"
  by (simp_all add: string_of_int_def string_of_nat.simps digit_char_def)

lemma sample_greet:
  "executeTest sample_sys world_lib ''greet'' (env, w) = Some (Inr True, (env, w + 5))"
  by (simp add: executeTest_def world_lib_def sample_yaml_load_def passing_test_def
      executeCommandTest_def sample_sys_def sample_result_def validateCommandExpectations_def)

lemma sample_missing:
  "executeTest sample_sys world_lib ''missing'' (env, w)
     = Some (Inl (Error ''Status code mismatch: expected 404, got 200''), (env, w + 5))"
  by (simp add: executeTest_def world_lib_def sample_yaml_load_def failing_test_def
      executeHttpTest_def sample_sys_def sample_response_def validateHttpExpectations_def
      sample_numbers)

lemma sample_clock: "now sample_sys w = w" "sleep sample_sys ms w = w + ms"
  by (simp_all add: sample_sys_def)

lemma sample_first:
  "runSingleTest sample_sys world_lib passing_test 0 (Map.empty, 0)
     = Some (Inr greet_outcome, (Map.empty, 5))"
proof -
  have d: "serialiseDefinition world_lib passing_test = ''greet''"
    "label_of passing_test 0 = JStr ''greet''" "get_prop passing_test ''retries'' = JUndefined"
    by (simp_all add: serialiseDefinition_def world_lib_def passing_test_def label_of_def
        or_else_def)
  have "attempt_loop sample_sys world_lib ''greet'' (JStr ''greet'') 0 0 0 None (Map.empty, 0)
      = Some (greet_outcome, (Map.empty, 5))"
    by (subst attempt_loop.simps) (simp add: sample_greet sample_clock greet_outcome_def)
  then show ?thesis
    by (simp add: runSingleTest_def d sample_clock) (simp add: passing_test_def)
qed

lemma sample_second:
  "runSingleTest sample_sys world_lib failing_test (Suc 0) (Map.empty, 5)
     = Some (Inr missing_outcome, (Map.empty, 515))"
proof -
  have d: "serialiseDefinition world_lib failing_test = ''missing''"
    "label_of failing_test (Suc 0) = JStr ''missing''" "get_prop failing_test ''retries'' = JNum 1"
    by (simp_all add: serialiseDefinition_def world_lib_def failing_test_def label_of_def
        or_else_def)
  have "attempt_loop sample_sys world_lib ''missing'' (JStr ''missing'') 5 1 0 None (Map.empty, 5)
      = Some (missing_outcome, (Map.empty, 515))"
    apply (subst attempt_loop.simps)
    apply (simp add: sample_missing sample_clock)
    apply (subst attempt_loop.simps)
    apply (simp add: sample_missing sample_clock)
    apply (subst attempt_loop.simps)
    apply (simp add: sample_clock missing_outcome_def)
    done
  then show ?thesis
    by (simp add: runSingleTest_def d sample_clock) (simp add: failing_test_def)
qed

lemma sample_batch:
  "parseTestDefinitions world_lib ''batch'' = Inr [passing_test, failing_test, unnamed_test]"
  by (simp add: parseTestDefinitions_def world_lib_def sample_yaml_load_def)

lemma sample_third:
  "skipped_outcome [passing_test, failing_test, unnamed_test] 2
     = \<lparr>name = JStr ''test-3'', passed = False, error = Some ''Skipped due to previous failure'',
         durationMs = 0, attempts = 0, skipped = True\<rparr>"
  by (simp add: skipped_outcome_def label_of_def unnamed_test_def or_else_def sample_numbers)

lemma sample_run:
  "runTests sample_sys world_lib ''batch'' (Map.empty, 0)
     = Some (Inr \<lparr>total = 3, passed_count = 1, failed_count = 1, skipped_count = 1,
          results = [greet_outcome, missing_outcome,
            skipped_outcome [passing_test, failing_test, unnamed_test] 2]\<rparr>, (Map.empty, 515))"
proof -
  let ?ds = "[passing_test, failing_test, unnamed_test]"
  have nn: "\<not> nullish unnamed_test" by (simp add: unnamed_test_def)
  have sk: "skip_from ?ds (Suc (Suc 0)) = Inr [skipped_outcome ?ds 2]"
    apply (subst skip_from.simps)
    apply (simp add: nn)
    apply (subst skip_from.simps)
    apply (simp add: skipped_outcome_def numeral_2_eq_2)
    done
  have "run_from sample_sys world_lib ?ds 0 [] (Map.empty, 0)
      = Some (Inr [greet_outcome, missing_outcome, skipped_outcome ?ds 2], (Map.empty, 515))"
    apply (subst run_from.simps)
    apply (simp add: normaliseDefinition_def sample_first greet_outcome_def)
    apply (subst run_from.simps)
    apply (simp add: normaliseDefinition_def sample_second missing_outcome_def sk)
    done
  then show ?thesis
    by (simp add: runTests_def sample_batch greet_outcome_def missing_outcome_def
        skipped_outcome_def)
qed

theorem fail_fast_counts_witness:
  "\<exists>rr. runTests sample_sys world_lib ''batch'' (Map.empty, 0) = Some (Inr rr, (Map.empty, 515))
     \<and> RunResult.total rr = 3
     \<and> passed_count rr = 1 \<and> failed_count rr = 1 \<and> skipped_count rr = 1
     \<and> results rr ! 0 = greet_outcome \<and> results rr ! 1 = missing_outcome
     \<and> skipped (results rr ! 2) \<and> attempts (results rr ! 2) = 0"
proof -
  let ?ds = "[passing_test, failing_test, unnamed_test]"
  let ?st = "\<lambda>i::nat. (Map.empty :: env, if i = 0 then 0 else if i = 1 then 5 else (515::int))"
  let ?out = "\<lambda>i::nat. if i = 0 then greet_outcome else missing_outcome"
  have objs: "\<forall>d\<in>set ?ds. \<not> nullish d"
    by (simp add: passing_test_def failing_test_def unnamed_test_def)
  have run: "\<forall>i<2. runSingleTest sample_sys world_lib (?ds ! i) i (?st i)
      = Some (Inr (?out i), ?st (i + 1))"
    by (simp add: less_Suc_eq numeral_2_eq_2 sample_first sample_second)
  have ok: "\<forall>i. i + 1 < (2::nat) \<longrightarrow> passed (?out i)"
    by (simp add: greet_outcome_def)
  have bad: "\<not> passed (?out (2 - 1))"
    by (simp add: missing_outcome_def)
  from fail_fast_counts [OF sample_batch _ _ objs run ok bad]
  obtain rr where rr: "runTests sample_sys world_lib ''batch'' (?st 0) = Some (Inr rr, ?st 2)"
    "RunResult.total rr = length ?ds"
    "passed_count rr = 2 - 1" "failed_count rr = 1" "skipped_count rr = length ?ds - 2"
    "\<forall>i<2. results rr ! i = ?out i"
    "\<forall>j. 2 \<le> j \<and> j < length ?ds \<longrightarrow>
        results rr ! j = skipped_outcome ?ds j
        \<and> skipped (results rr ! j) \<and> attempts (results rr ! j) = 0"
    by auto
  from rr(6) have "results rr ! 0 = greet_outcome" "results rr ! 1 = missing_outcome"
    by simp_all
  moreover from rr(7) [rule_format, of 2]
  have "skipped (results rr ! 2)" "attempts (results rr ! 2) = 0"
    by (simp_all add: skipped_outcome_def)
  ultimately show ?thesis
    using rr(1-5) by (intro exI [of _ rr]) simp
qed

theorem run_result_accounts_for_every_definition_witness:
  "\<exists>rr s'. runTests sample_sys world_lib ''batch'' (Map.empty, 0) = Some (Inr rr, s')
     \<and> passed_count rr + failed_count rr + skipped_count rr = RunResult.total rr
     \<and> length (results rr) = RunResult.total rr
     \<and> RunResult.total rr = 3
     \<and> name (results rr ! 2) = JStr ''test-3''
     \<and> \<not> passed (results rr ! 2)"
  using run_result_accounts_for_every_definition [OF sample_run] sample_run
  by (simp add: sample_third)


end
